theory Spec2Isabelle
  imports Complex_Main
begin

section \<open>Cells, errors and tables\<close>

text \<open>
  The program is one function, \<open>build_fact_transactions\<close> of
  \<open>etl/gold/fact_transactions.py\<close>, over pandas tables. A table is modelled as the
  list of its rows, a row as a record of the columns the function reads, and every
  cell as nullable, as a pandas cell is.

  A cell of a date column: \<open>NaT\<close> is the null; \<open>Stamp t\<close> is a value of a
  \<open>datetime64[ns]\<close> column, \<open>t\<close> nanoseconds after 1970-01-01; \<open>Raw p\<close> is a
  value that is not of datetime type yet (a string, a date object), together with what
  \<open>pd.to_datetime\<close> makes of it: \<open>Some t\<close> when it parses to the instant \<open>t\<close>,
  \<open>None\<close> when parsing it raises.
\<close>

datatype dt_cell = NaT | Stamp int | Raw "int option"

text \<open>
  What the function can raise: the parser's error out of \<open>pd.to_datetime\<close>, the
  \<open>AssertionError\<close> of one of its five \<open>assert\<close> statements with its message,
  and the \<open>MergeError\<close> of a merge whose \<open>validate\<close> check fails.
\<close>

datatype error = ParserError | AssertionError string | MergeError string

text \<open>The table \<open>transform_transactions_fn()\<close> returns, under its own column names.\<close>

record transaction =
  transaction_id :: "string option"
  transaction_key :: "int option"
  customer_id :: "string option"
  timestamp :: dt_cell
  amount_eur :: "real option"
  exchange_rate :: "real option"
  transaction_currency :: "string option"
  category :: "string option"

text \<open>
  The four dimension tables. Their columns carry a prefix here, since a record field is
  a constant of the theory: \<open>dc_customer_id\<close> is \<open>dim_customer["customer_id"]\<close>,
  \<open>cur_transaction_currency\<close> is \<open>dim_currency["transaction_currency"]\<close>,
  \<open>cat_category\<close> is \<open>dim_category["category"]\<close> and \<open>dd_date\<close> is
  \<open>dim_date["date"]\<close>. Of the static dimensions the function reads the two
  columns it projects (lines 113, 121, 131) and no other.
\<close>

record customer_version =
  dc_customer_id :: "string option"
  dc_customer_key :: "int option"
  dc_effective_from :: dt_cell
  dc_effective_to :: dt_cell

record currency_row =
  cur_transaction_currency :: "string option"
  cur_currency_key :: "int option"

record category_row =
  cat_category :: "string option"
  cat_category_key :: "int option"

record date_row =
  dd_date :: dt_cell
  dd_date_key :: "int option"

text \<open>
  The working table \<open>transactions_df\<close> after lines 53 to 83 (prefix \<open>n_\<close>): the
  three renamed columns and the two derived ones.
\<close>

record norm_row =
  n_transaction_id :: "string option"
  n_transaction_key :: "int option"
  n_customer_id :: "string option"
  n_transaction_timestamp :: dt_cell
  n_transaction_amount_eur :: "real option"
  n_current_exchange_rate :: "real option"
  n_transaction_currency :: "string option"
  n_category :: "string option"
  n_transaction_date :: dt_cell
  n_is_high_value_transaction :: int

text \<open>
  The working table after line 105 (prefix \<open>r_\<close>): \<open>customer_id\<close>,
  \<open>effective_from\<close> and \<open>effective_to\<close> are dropped, \<open>customer_key\<close> stays.
\<close>

record resolved_row =
  r_transaction_id :: "string option"
  r_transaction_key :: "int option"
  r_transaction_timestamp :: dt_cell
  r_transaction_amount_eur :: "real option"
  r_current_exchange_rate :: "real option"
  r_transaction_currency :: "string option"
  r_category :: "string option"
  r_transaction_date :: dt_cell
  r_is_high_value_transaction :: int
  r_customer_key :: "int option"

text \<open>The fact table \<open>fact_transactions\<close> of lines 141 to 152 (prefix \<open>f_\<close>).\<close>

record fact_row =
  f_transaction_id :: "string option"
  f_transaction_key :: "int option"
  f_customer_key :: "int option"
  f_currency_key :: "int option"
  f_category_key :: "int option"
  f_date_key :: "int option"
  f_transaction_timestamp :: dt_cell
  f_transaction_amount_eur :: "real option"
  f_current_exchange_rate :: "real option"
  f_is_high_value_transaction :: int

text \<open>
  The file \<open>to_csv\<close> writes: the header line and one line of cells per row
  (\<open>index=False\<close>: no index column).
\<close>

datatype cell =
  StrCell "string option" | IntCell "int option" | NumCell "real option" | DtCell dt_cell

record csv =
  header :: "string list"
  lines :: "cell list list"

text \<open>
  What the function can change: the four dimension tables, which it receives by
  reference, and the file at \<open>output_path\<close> (\<open>None\<close>: no file there).
\<close>

record tables =
  dim_customer :: "customer_version list"
  dim_currency :: "currency_row list"
  dim_category :: "category_row list"
  dim_date :: "date_row list"
  output_file :: "csv option"

section \<open>The pandas operations the function calls\<close>

text \<open>
  \<open>pd.to_datetime\<close> of a column, with its default \<open>errors="raise"\<close>: it raises
  when a value does not parse; otherwise every value is a datetime or \<open>NaT\<close>.
\<close>

fun to_datetime_cell :: "dt_cell \<Rightarrow> dt_cell" where
  "to_datetime_cell (Raw (Some t)) = Stamp t"
| "to_datetime_cell c = c"

definition to_datetime :: "dt_cell list \<Rightarrow> error + dt_cell list" where
  "to_datetime col =
     (if Raw None \<in> set col then Inl ParserError else Inr (map to_datetime_cell col))"

text \<open>
  \<open>pd.Timestamp("yyyy-mm-dd")\<close>: midnight of that day of the proleptic Gregorian
  calendar, counted in days from 1970-01-01.
\<close>

definition ns_per_day :: int where
  "ns_per_day = 86400000000000"

definition days_from_civil :: "int \<Rightarrow> int \<Rightarrow> int \<Rightarrow> int" where
  "days_from_civil y m d =
     (let y' = (if m \<le> 2 then y - 1 else y);
          era = y' div 400;
          yoe = y' - era * 400;
          doy = (153 * (if 2 < m then m - 3 else m + 9) + 2) div 5 + d - 1;
          doe = yoe * 365 + yoe div 4 - yoe div 100 + doy
      in era * 146097 + doe - 719468)"

definition Timestamp :: "int \<Rightarrow> int \<Rightarrow> int \<Rightarrow> dt_cell" where
  "Timestamp y m d = Stamp (days_from_civil y m d * ns_per_day)"

text \<open>
  \<open>.dt.date\<close> (line 64): the calendar date of a timestamp, a date object and so not
  of datetime type; line 81 converts it back, to midnight of that day.
\<close>

fun dt_date :: "dt_cell \<Rightarrow> dt_cell" where
  "dt_date (Stamp t) = Raw (Some (t - t mod ns_per_day))"
| "dt_date c = c"

text \<open>\<open>fillna\<close> of a datetime column.\<close>

definition fillna :: "dt_cell \<Rightarrow> dt_cell list \<Rightarrow> dt_cell list" where
  "fillna d col = map (\<lambda>c. if c = NaT then d else c) col"

text \<open>
  \<open><=\<close> of two datetime columns, cell by cell: a comparison with \<open>NaT\<close> is
  \<open>False\<close>. Both columns have been through \<open>pd.to_datetime\<close> when they are
  compared, so no \<open>Raw\<close> cell reaches it.
\<close>

fun dt_le :: "dt_cell \<Rightarrow> dt_cell \<Rightarrow> bool" where
  "dt_le (Stamp a) (Stamp b) = (a \<le> b)"
| "dt_le _ _ = False"

text \<open>
  \<open>> 500\<close> on the amount column and \<open>.astype(int)\<close> of the boolean column
  (lines 67 to 69). An amount is a float: \<open>None\<close> is NaN, with which every
  comparison is \<open>False\<close>, and a finite float is the real number it stands for,
  which the comparison with 500 reads exactly.
\<close>

definition gt_500 :: "real option \<Rightarrow> bool" where
  "gt_500 a = (case a of None \<Rightarrow> False | Some x \<Rightarrow> 500 < x)"

definition astype_int :: "bool \<Rightarrow> int" where
  "astype_int b = (if b then 1 else 0)"

text \<open>
  \<open>left.merge(right, how="left")\<close> on one key column: the left rows in their order,
  each once per right row of the same key, in the right table's order, and once with
  nulls in the right table's columns (\<open>None\<close>) when no right row has its key. pandas
  matches a null key with a null key, as the equality of \<open>option\<close> values does.
\<close>

definition merge_left ::
  "('a \<Rightarrow> 'k) \<Rightarrow> ('b \<Rightarrow> 'k) \<Rightarrow> 'a list \<Rightarrow> 'b list \<Rightarrow> ('a \<times> 'b option) list" where
  "merge_left lkey rkey left right =
     concat (map (\<lambda>l.
       (case filter (\<lambda>r. rkey r = lkey l) right of
          [] \<Rightarrow> [(l, None)]
        | ms \<Rightarrow> map (\<lambda>r. (l, Some r)) ms)) left)"

text \<open>
  The same merge with \<open>validate="many_to_one"\<close>: pandas checks, before it joins, that
  the right table's keys are unique, and raises \<open>MergeError\<close> when they are not.
\<close>

definition merge_message :: string where
  "merge_message = ''Merge keys are not unique in right dataset; not a many-to-one merge''"

definition merge_many_to_one ::
  "('a \<Rightarrow> 'k) \<Rightarrow> ('b \<Rightarrow> 'k) \<Rightarrow> 'a list \<Rightarrow> 'b list \<Rightarrow> error + ('a \<times> 'b option) list" where
  "merge_many_to_one lkey rkey left right =
     (if distinct (map rkey right) then Inr (merge_left lkey rkey left right)
      else Inl (MergeError merge_message))"

text \<open>
  \<open>groupby(key).size()\<close>: one count per key value; rows whose key is null are in no
  group (\<open>dropna=True\<close>). \<open>.max()\<close> of the counts is NaN (\<open>None\<close>) when there is
  no group.
\<close>

definition group_sizes :: "'k option list \<Rightarrow> nat list" where
  "group_sizes ks =
     map (\<lambda>k. length (filter (\<lambda>x. x = Some k) ks)) (remdups (List.map_filter (\<lambda>k. k) ks))"

fun series_max :: "nat list \<Rightarrow> nat option" where
  "series_max [] = None"
| "series_max (x # xs) = Some (fold max xs x)"

text \<open>\<open>.isnull().sum()\<close> of a column.\<close>

definition isnull_sum :: "'a option list \<Rightarrow> nat" where
  "isnull_sum col = length (filter (\<lambda>c. c = None) col)"

section \<open>The stages of \<open>build_fact_transactions\<close>\<close>

subsection \<open>Standardize and rename (lines 53 to 69)\<close>

text \<open>
  One row of the working table after \<open>rename\<close> and the three column assignments,
  given the row's converted timestamp. No row is added, dropped or moved.
\<close>

definition standardize_row :: "transaction \<Rightarrow> dt_cell \<Rightarrow> norm_row" where
  "standardize_row t ts =
     \<lparr> n_transaction_id = transaction_id t,
       n_transaction_key = transaction_key t,
       n_customer_id = customer_id t,
       n_transaction_timestamp = ts,
       n_transaction_amount_eur = amount_eur t,
       n_current_exchange_rate = exchange_rate t,
       n_transaction_currency = transaction_currency t,
       n_category = category t,
       n_transaction_date = dt_date ts,
       n_is_high_value_transaction = astype_int (gt_500 (amount_eur t)) \<rparr>"

definition standardize :: "transaction list \<Rightarrow> error + norm_row list" where
  "standardize txs =
     (case to_datetime (map timestamp txs) of
        Inl e \<Rightarrow> Inl e
      | Inr col \<Rightarrow> Inr (map2 standardize_row txs col))"

subsection \<open>The SCD Type-2 customer dimension (lines 76 to 105)\<close>

text \<open>
  Lines 76 to 79 assign to two columns of the caller's \<open>dim_customer\<close>: the table the
  caller holds changes. The first assignment is done when the second conversion raises.
\<close>

definition Timestamp_2099_12_31 :: dt_cell where
  "Timestamp_2099_12_31 = Timestamp 2099 12 31"

definition coerce_customer_dates :: "tables \<Rightarrow> (error + unit) \<times> tables" where
  "coerce_customer_dates s =
     (case to_datetime (map dc_effective_from (dim_customer s)) of
        Inl e \<Rightarrow> (Inl e, s)
      | Inr froms \<Rightarrow>
          (let s1 = s\<lparr>dim_customer :=
                 map2 (\<lambda>v c. v\<lparr>dc_effective_from := c\<rparr>) (dim_customer s) froms\<rparr>
           in case to_datetime (map dc_effective_to (dim_customer s1)) of
                Inl e \<Rightarrow> (Inl e, s1)
              | Inr tos \<Rightarrow>
                  (Inr (), s1\<lparr>dim_customer :=
                     map2 (\<lambda>v c. v\<lparr>dc_effective_to := c\<rparr>) (dim_customer s1)
                       (fillna Timestamp_2099_12_31 tos)\<rparr>)))"

text \<open>
  A row of the working table after the merge of line 86: the transaction's columns and
  the matched version's, or nulls in the version's columns.
\<close>

type_synonym scd_row = "norm_row \<times> customer_version option"

definition effective_from :: "scd_row \<Rightarrow> dt_cell" where
  "effective_from p = (case snd p of None \<Rightarrow> NaT | Some v \<Rightarrow> dc_effective_from v)"

definition effective_to :: "scd_row \<Rightarrow> dt_cell" where
  "effective_to p = (case snd p of None \<Rightarrow> NaT | Some v \<Rightarrow> dc_effective_to v)"

definition customer_key :: "scd_row \<Rightarrow> int option" where
  "customer_key p = (case snd p of None \<Rightarrow> None | Some v \<Rightarrow> dc_customer_key v)"

text \<open>The row filter of lines 93 to 96.\<close>

definition in_interval :: "scd_row \<Rightarrow> bool" where
  "in_interval p =
     (dt_le (effective_from p) (n_transaction_date (fst p)) \<and>
      dt_le (n_transaction_date (fst p)) (effective_to p))"

text \<open>Lines 86 to 96: the merge on \<open>customer_id\<close>, then the filter.\<close>

definition scd_match :: "norm_row list \<Rightarrow> customer_version list \<Rightarrow> scd_row list" where
  "scd_match rows versions =
     filter in_interval (merge_left n_customer_id dc_customer_id rows versions)"

text \<open>The \<open>drop\<close> of lines 103 to 105.\<close>

definition drop_scd_columns :: "scd_row \<Rightarrow> resolved_row" where
  "drop_scd_columns p =
     \<lparr> r_transaction_id = n_transaction_id (fst p),
       r_transaction_key = n_transaction_key (fst p),
       r_transaction_timestamp = n_transaction_timestamp (fst p),
       r_transaction_amount_eur = n_transaction_amount_eur (fst p),
       r_current_exchange_rate = n_current_exchange_rate (fst p),
       r_transaction_currency = n_transaction_currency (fst p),
       r_category = n_category (fst p),
       r_transaction_date = n_transaction_date (fst p),
       r_is_high_value_transaction = n_is_high_value_transaction (fst p),
       r_customer_key = customer_key p \<rparr>"

text \<open>
  Lines 76 to 96: the working table after the row filter, with \<open>transaction_date\<close>
  converted at line 81.
\<close>

definition scd_filter ::
  "norm_row list \<Rightarrow> tables \<Rightarrow> (error + scd_row list) \<times> tables" where
  "scd_filter rows s =
     (case coerce_customer_dates s of
        (Inl e, s') \<Rightarrow> (Inl e, s')
      | (Inr u, s') \<Rightarrow>
          (case to_datetime (map n_transaction_date rows) of
             Inl e \<Rightarrow> (Inl e, s')
           | Inr dates \<Rightarrow>
               (Inr (scd_match (map2 (\<lambda>r d. r\<lparr>n_transaction_date := d\<rparr>) rows dates)
                       (dim_customer s')), s')))"

text \<open>The assertion of lines 99 and 100, then the \<open>drop\<close>.\<close>

definition scd_message :: string where
  "scd_message = ''SCD2 resolution failed: duplicate customer versions detected.''"

definition check_and_drop :: "scd_row list \<Rightarrow> error + resolved_row list" where
  "check_and_drop kept =
     (if series_max (group_sizes (map (\<lambda>p. n_transaction_id (fst p)) kept)) = Some 1
      then Inr (map drop_scd_columns kept)
      else Inl (AssertionError scd_message))"

subsection \<open>The static dimensions (lines 112 to 136)\<close>

text \<open>
  A row of the working table after the three merges: the resolved row and the matched
  row of each static dimension, or nulls in its columns.
\<close>

type_synonym keyed_row =
  "((resolved_row \<times> currency_row option) \<times> category_row option) \<times> date_row option"

definition resolve_keys ::
  "resolved_row list \<Rightarrow> tables \<Rightarrow> (error + keyed_row list) \<times> tables" where
  "resolve_keys rows s =
     (case merge_many_to_one r_transaction_currency cur_transaction_currency rows
             (dim_currency s) of
        Inl e \<Rightarrow> (Inl e, s)
      | Inr m1 \<Rightarrow>
          (case merge_many_to_one (\<lambda>p. r_category (fst p)) cat_category m1
                  (dim_category s) of
             Inl e \<Rightarrow> (Inl e, s)
           | Inr m2 \<Rightarrow>
               (case to_datetime (map dd_date (dim_date s)) of
                  Inl e \<Rightarrow> (Inl e, s)
                | Inr dates \<Rightarrow>
                    (let s' = s\<lparr>dim_date :=
                           map2 (\<lambda>d c. d\<lparr>dd_date := c\<rparr>) (dim_date s) dates\<rparr>
                     in case merge_many_to_one (\<lambda>p. r_transaction_date (fst (fst p)))
                               dd_date m2 (dim_date s') of
                          Inl e \<Rightarrow> (Inl e, s')
                        | Inr m3 \<Rightarrow> (Inr m3, s')))))"

subsection \<open>The fact table, its checks and the file (lines 141 to 174)\<close>

definition currency_key :: "keyed_row \<Rightarrow> int option" where
  "currency_key p =
     (case snd (fst (fst p)) of None \<Rightarrow> None | Some d \<Rightarrow> cur_currency_key d)"

definition category_key :: "keyed_row \<Rightarrow> int option" where
  "category_key p = (case snd (fst p) of None \<Rightarrow> None | Some d \<Rightarrow> cat_category_key d)"

definition date_key :: "keyed_row \<Rightarrow> int option" where
  "date_key p = (case snd p of None \<Rightarrow> None | Some d \<Rightarrow> dd_date_key d)"

text \<open>The column selection of lines 141 to 152.\<close>

definition select_fact_columns :: "keyed_row \<Rightarrow> fact_row" where
  "select_fact_columns p =
     (let r = fst (fst (fst p)) in
      \<lparr> f_transaction_id = r_transaction_id r,
        f_transaction_key = r_transaction_key r,
        f_customer_key = r_customer_key r,
        f_currency_key = currency_key p,
        f_category_key = category_key p,
        f_date_key = date_key p,
        f_transaction_timestamp = r_transaction_timestamp r,
        f_transaction_amount_eur = r_transaction_amount_eur r,
        f_current_exchange_rate = r_current_exchange_rate r,
        f_is_high_value_transaction = r_is_high_value_transaction r \<rparr>)"

definition fact_columns :: "string list" where
  "fact_columns =
     [''transaction_id'', ''transaction_key'', ''customer_key'', ''currency_key'',
      ''category_key'', ''date_key'', ''transaction_timestamp'', ''transaction_amount_eur'',
      ''current_exchange_rate'', ''is_high_value_transaction'']"

definition fact_cells :: "fact_row \<Rightarrow> cell list" where
  "fact_cells r =
     [StrCell (f_transaction_id r), IntCell (f_transaction_key r),
      IntCell (f_customer_key r), IntCell (f_currency_key r), IntCell (f_category_key r),
      IntCell (f_date_key r), DtCell (f_transaction_timestamp r),
      NumCell (f_transaction_amount_eur r), NumCell (f_current_exchange_rate r),
      IntCell (Some (f_is_high_value_transaction r))]"

definition to_csv :: "fact_row list \<Rightarrow> csv" where
  "to_csv rows = \<lparr> header = fact_columns, lines = map fact_cells rows \<rparr>"

definition missing_message :: "string \<Rightarrow> string" where
  "missing_message column = ''Missing '' @ column @ '' detected.''"

text \<open>
  Lines 141 to 174. The four assertions run in the source's order and the file is
  written after the last. The message to the logger is not modelled: it changes
  neither a table nor the file.
\<close>

definition publish :: "keyed_row list \<Rightarrow> tables \<Rightarrow> (error + fact_row list) \<times> tables" where
  "publish rows s =
     (let fact_transactions = map select_fact_columns rows in
      if isnull_sum (map f_customer_key fact_transactions) \<noteq> 0
      then (Inl (AssertionError (missing_message ''customer_key'')), s)
      else if isnull_sum (map f_currency_key fact_transactions) \<noteq> 0
      then (Inl (AssertionError (missing_message ''currency_key'')), s)
      else if isnull_sum (map f_category_key fact_transactions) \<noteq> 0
      then (Inl (AssertionError (missing_message ''category_key'')), s)
      else if isnull_sum (map f_date_key fact_transactions) \<noteq> 0
      then (Inl (AssertionError (missing_message ''date_key'')), s)
      else (Inr fact_transactions, s\<lparr>output_file := Some (to_csv fact_transactions)\<rparr>))"

subsection \<open>The function\<close>

text \<open>
  Statements run in sequence, and one that raises ends the call: the tables stay as
  they are at that moment.
\<close>

definition and_then ::
  "(error + 'a) \<times> tables \<Rightarrow> ('a \<Rightarrow> tables \<Rightarrow> (error + 'b) \<times> tables) \<Rightarrow> (error + 'b) \<times> tables" where
  "and_then m f = (case m of (Inl e, s) \<Rightarrow> (Inl e, s) | (Inr x, s) \<Rightarrow> f x s)"

text \<open>
  The function up to line 96, up to line 105 and up to line 136: the working table
  \<open>transactions_df\<close> there, or what was raised before, given the table
  \<open>transform_transactions_fn()\<close> returns (line 47; the customers table of line 48 is
  not read again) and the tables and the file as they are before the call.
\<close>

definition filtered_table ::
  "transaction list \<Rightarrow> tables \<Rightarrow> (error + scd_row list) \<times> tables" where
  "filtered_table txs s = and_then (standardize txs, s) scd_filter"

definition resolved_table ::
  "transaction list \<Rightarrow> tables \<Rightarrow> (error + resolved_row list) \<times> tables" where
  "resolved_table txs s =
     and_then (filtered_table txs s) (\<lambda>kept s'. (check_and_drop kept, s'))"

definition keyed_table ::
  "transaction list \<Rightarrow> tables \<Rightarrow> (error + keyed_row list) \<times> tables" where
  "keyed_table txs s = and_then (resolved_table txs s) resolve_keys"

text \<open>
  \<open>build_fact_transactions\<close>: what it returns or raises, and the tables and the file
  as they are after the call.
\<close>

definition build_fact_transactions ::
  "transaction list \<Rightarrow> tables \<Rightarrow> (error + fact_row list) \<times> tables" where
  "build_fact_transactions txs s = and_then (keyed_table txs s) publish"

section \<open>Notions of the properties\<close>

text \<open>The rows of the filtered table that carry a given \<open>transaction_id\<close>.\<close>

definition rows_of :: "string option \<Rightarrow> scd_row list \<Rightarrow> scd_row list" where
  "rows_of k kept = filter (\<lambda>p. n_transaction_id (fst p) = k) kept"

text \<open>
  The row of a transaction in the working table that line 86 merges: standardized, its
  \<open>transaction_date\<close> converted at line 81.
\<close>

definition prepared_row :: "transaction \<Rightarrow> norm_row" where
  "prepared_row t =
     (standardize_row t (to_datetime_cell (timestamp t)))
       \<lparr>n_transaction_date := to_datetime_cell (dt_date (to_datetime_cell (timestamp t)))\<rparr>"

text \<open>
  The row of a resolved row after the three merges of lines 112 to 136, given the three
  dimension tables as the merges read them.
\<close>

definition keyed_row_of ::
  "currency_row list \<Rightarrow> category_row list \<Rightarrow> date_row list \<Rightarrow> resolved_row \<Rightarrow> keyed_row" where
  "keyed_row_of currencies categories dates r =
     (((r, find (\<lambda>d. cur_transaction_currency d = r_transaction_currency r) currencies),
       find (\<lambda>d. cat_category d = r_category r) categories),
      find (\<lambda>d. dd_date d = r_transaction_date r) dates)"

text \<open>
  A row of \<open>dim_customer\<close> after the assignment of line 76, and after both
  assignments of lines 76 to 79; a row of \<open>dim_date\<close> after the assignment of
  line 128.
\<close>

definition coerced_from :: "customer_version \<Rightarrow> customer_version" where
  "coerced_from v = v\<lparr>dc_effective_from := to_datetime_cell (dc_effective_from v)\<rparr>"

definition coerced_version :: "customer_version \<Rightarrow> customer_version" where
  "coerced_version v =
     v\<lparr>dc_effective_from := to_datetime_cell (dc_effective_from v),
       dc_effective_to :=
         (if to_datetime_cell (dc_effective_to v) = NaT then Timestamp_2099_12_31
          else to_datetime_cell (dc_effective_to v))\<rparr>"

definition coerced_date :: "date_row \<Rightarrow> date_row" where
  "coerced_date d = d\<lparr>dd_date := to_datetime_cell (dd_date d)\<rparr>"

section \<open>Fixtures\<close>

text \<open>
  A transaction of customer \<open>C1\<close> in category \<open>food\<close>, and an instant given
  as a calendar day and an hour of it.
\<close>

definition ex_txn :: "string option \<Rightarrow> dt_cell \<Rightarrow> real \<Rightarrow> string \<Rightarrow> transaction" where
  "ex_txn tid ts amount currency =
     \<lparr> transaction_id = tid, transaction_key = Some 9, customer_id = Some ''C1'',
       timestamp = ts, amount_eur = Some amount, exchange_rate = Some 1.25,
       transaction_currency = Some currency, category = Some ''food'' \<rparr>"

definition ex_at :: "int \<Rightarrow> int \<Rightarrow> int \<Rightarrow> int \<Rightarrow> int" where
  "ex_at y m d h = days_from_civil y m d * ns_per_day + h * 3600000000000"

definition ex_version :: "int option \<Rightarrow> dt_cell \<Rightarrow> dt_cell \<Rightarrow> customer_version" where
  "ex_version key from_cell to_cell =
     \<lparr> dc_customer_id = Some ''C1'', dc_customer_key = key,
       dc_effective_from = from_cell, dc_effective_to = to_cell \<rparr>"

definition ex_dates :: "date_row list" where
  "ex_dates =
     [\<lparr> dd_date = Raw (Some (ex_at 2024 3 3 0)), dd_date_key = Some 20240303 \<rparr>,
      \<lparr> dd_date = Raw (Some (ex_at 2024 6 15 0)), dd_date_key = Some 20240615 \<rparr>,
      \<lparr> dd_date = Raw (Some (ex_at 2024 7 2 0)), dd_date_key = Some 20240702 \<rparr>,
      \<lparr> dd_date = Raw (Some (ex_at 2024 12 25 0)), dd_date_key = Some 20241225 \<rparr>]"

definition ex_tables :: "customer_version list \<Rightarrow> tables" where
  "ex_tables versions =
     \<lparr> dim_customer = versions,
       dim_currency = [\<lparr> cur_transaction_currency = Some ''EUR'', cur_currency_key = Some 1 \<rparr>],
       dim_category = [\<lparr> cat_category = Some ''food'', cat_category_key = Some 7 \<rparr>],
       dim_date = ex_dates,
       output_file = None \<rparr>"

text \<open>
  The scenario of the specification: version V1 of customer C1, key 100, valid from
  2024-01-01 to 2024-06-30, and V2, key 101, valid from 2024-07-01 to 2099-12-31;
  transactions on 2024-06-15, 2024-07-02 and 2024-12-25, of 500, 500.01 and 20 euros.
\<close>

definition scenario_versions :: "customer_version list" where
  "scenario_versions =
     [ex_version (Some 100) (Raw (Some (ex_at 2024 1 1 0))) (Raw (Some (ex_at 2024 6 30 0))),
      ex_version (Some 101) (Raw (Some (ex_at 2024 7 1 0))) (Raw (Some (ex_at 2099 12 31 0)))]"

definition scenario_txns :: "transaction list" where
  "scenario_txns =
     [ex_txn (Some ''T1'') (Raw (Some (ex_at 2024 6 15 14))) 500 ''EUR'',
      ex_txn (Some ''T2'') (Raw (Some (ex_at 2024 7 2 9))) 500.01 ''EUR'',
      ex_txn (Some ''T3'') (Raw (Some (ex_at 2024 12 25 23))) 20 ''EUR'']"

text \<open>Transactions on the last day of V1, late in the evening, and on the first day of V2.\<close>

definition boundary_txns :: "transaction list" where
  "boundary_txns =
     [ex_txn (Some ''B1'') (Raw (Some (ex_at 2024 6 30 23))) 40 ''EUR'',
      ex_txn (Some ''B2'') (Raw (Some (ex_at 2024 7 1 0))) 60 ''EUR'']"

text \<open>
  A gap: the one version of C1 starts on 2024-01-01, and transaction T2 is of
  2023-05-05.
\<close>

definition gap_versions :: "customer_version list" where
  "gap_versions = [ex_version (Some 100) (Stamp (ex_at 2024 1 1 0)) NaT]"

definition gap_txns :: "transaction list" where
  "gap_txns =
     [ex_txn (Some ''T1'') (Stamp (ex_at 2024 6 15 14)) 40 ''EUR'',
      ex_txn (Some ''T2'') (Stamp (ex_at 2023 5 5 8)) 60 ''EUR'']"

text \<open>
  An overlap: V1 is valid to 2024-06-30 and V2 from 2024-06-01, so both hold a
  transaction of 2024-06-15.
\<close>

definition overlap_versions :: "customer_version list" where
  "overlap_versions =
     [ex_version (Some 100) (Stamp (ex_at 2024 1 1 0)) (Stamp (ex_at 2024 6 30 0)),
      ex_version (Some 101) (Stamp (ex_at 2024 6 1 0)) NaT]"

definition overlap_txns :: "transaction list" where
  "overlap_txns =
     [ex_txn (Some ''T1'') (Stamp (ex_at 2024 6 15 14)) 40 ''EUR'',
      ex_txn (Some ''T3'') (Stamp (ex_at 2024 3 3 8)) 60 ''EUR'']"

text \<open>
  The same overlap met by a transaction with no \<open>transaction_id\<close>, next to one with
  a gap (T2, of 2023-05-05) and one that one version holds (T3).
\<close>

definition unkeyed_txns :: "transaction list" where
  "unkeyed_txns =
     [ex_txn None (Stamp (ex_at 2024 6 15 14)) 40 ''EUR'',
      ex_txn (Some ''T2'') (Stamp (ex_at 2023 5 5 8)) 50 ''EUR'',
      ex_txn (Some ''T3'') (Stamp (ex_at 2024 3 3 8)) 60 ''EUR'']"

text \<open>Transactions in a currency that \<open>dim_currency\<close> does not have: one, and two.\<close>

definition usd_once :: "transaction list" where
  "usd_once =
     [ex_txn (Some ''T1'') (Stamp (ex_at 2024 6 15 14)) 40 ''USD'',
      ex_txn (Some ''T3'') (Stamp (ex_at 2024 3 3 8)) 60 ''EUR'']"

definition usd_twice :: "transaction list" where
  "usd_twice =
     [ex_txn (Some ''T1'') (Stamp (ex_at 2024 6 15 14)) 40 ''USD'',
      ex_txn (Some ''T3'') (Stamp (ex_at 2024 3 3 8)) 60 ''USD'']"


text \<open>A currency dimension with the code EUR twice.\<close>

definition duplicate_currency :: "currency_row list" where
  "duplicate_currency =
     [\<lparr> cur_transaction_currency = Some ''EUR'', cur_currency_key = Some 1 \<rparr>,
      \<lparr> cur_transaction_currency = Some ''EUR'', cur_currency_key = Some 2 \<rparr>]"

text \<open>Unfolding every definition evaluates the function on a fixture.\<close>

lemmas stage_defs =
  build_fact_transactions_def keyed_table_def resolved_table_def filtered_table_def
  and_then_def standardize_def standardize_row_def to_datetime_def scd_filter_def
  coerce_customer_dates_def fillna_def Timestamp_2099_12_31_def Timestamp_def
  days_from_civil_def ns_per_day_def scd_match_def merge_left_def in_interval_def
  effective_from_def effective_to_def customer_key_def check_and_drop_def group_sizes_def
  drop_scd_columns_def resolve_keys_def merge_many_to_one_def publish_def
  select_fact_columns_def currency_key_def category_key_def date_key_def isnull_sum_def
  gt_500_def astype_int_def List.map_filter_def to_csv_def fact_columns_def fact_cells_def
  missing_message_def scd_message_def merge_message_def rows_of_def Let_def

lemmas fixture_defs =
  ex_txn_def ex_at_def ex_version_def ex_dates_def ex_tables_def scenario_versions_def
  scenario_txns_def gap_versions_def gap_txns_def usd_once_def

section \<open>Lemmas on the operations\<close>

lemma map2_map_self: "map2 f xs (map g xs) = map (\<lambda>x. f x (g x)) xs"
  by (induction xs) auto

lemma to_datetime_Inr: "to_datetime col = Inr c \<Longrightarrow> c = map to_datetime_cell col \<and> Raw None \<notin> set col"
  by (auto simp: to_datetime_def split: if_splits)

lemma to_datetime_Inl: "to_datetime col = Inl e \<Longrightarrow> e = ParserError \<and> Raw None \<in> set col"
  by (auto simp: to_datetime_def split: if_splits)

lemma standardize_Inr:
  "standardize txs = Inr rows \<Longrightarrow>
     rows = map (\<lambda>t. standardize_row t (to_datetime_cell (timestamp t))) txs"
  by (auto simp: standardize_def map2_map_self dest!: to_datetime_Inr split: sum.splits)

lemma assign_from:
  "map2 (\<lambda>v c. v\<lparr>dc_effective_from := c\<rparr>) vs (map to_datetime_cell (map dc_effective_from vs))
     = map coerced_from vs"
  by (simp add: map2_map_self coerced_from_def)

lemma to_of_coerced_from: "map dc_effective_to (map coerced_from vs) = map dc_effective_to vs"
  by (simp add: coerced_from_def)

lemma assign_to:
  "map2 (\<lambda>v c. v\<lparr>dc_effective_to := c\<rparr>) (map coerced_from vs)
      (fillna Timestamp_2099_12_31 (map to_datetime_cell (map dc_effective_to vs)))
     = map coerced_version vs"
  by (induction vs) (auto simp: coerced_from_def coerced_version_def fillna_def)

lemma coerce_customer_dates_cases:
  "coerce_customer_dates s = (r, s') \<Longrightarrow>
     (r = Inl ParserError \<and> s' = s) \<or>
     (r = Inl ParserError \<and> s' = s\<lparr>dim_customer := map coerced_from (dim_customer s)\<rparr>) \<or>
     (r = Inr () \<and> s' = s\<lparr>dim_customer := map coerced_version (dim_customer s)\<rparr>)"
proof (cases "to_datetime (map dc_effective_from (dim_customer s))")
  case (Inl e)
  moreover assume "coerce_customer_dates s = (r, s')"
  ultimately show ?thesis
    using to_datetime_Inl[OF Inl] by (simp add: coerce_customer_dates_def)
next
  case (Inr froms)
  assume run: "coerce_customer_dates s = (r, s')"
  have froms: "froms = map to_datetime_cell (map dc_effective_from (dim_customer s))"
    using to_datetime_Inr[OF Inr] by simp
  show ?thesis
  proof (cases "to_datetime (map dc_effective_to (dim_customer s))")
    case (Inl e)
    then show ?thesis
      using run Inr froms to_datetime_Inl[OF Inl]
      by (simp add: coerce_customer_dates_def Let_def assign_from to_of_coerced_from
          del: map_map)
  next
    case tos: (Inr tos)
    have "tos = map to_datetime_cell (map dc_effective_to (dim_customer s))"
      using to_datetime_Inr[OF tos] by simp
    then show ?thesis
      using run Inr froms tos
      by (simp add: coerce_customer_dates_def Let_def assign_from to_of_coerced_from assign_to
          del: map_map)
  qed
qed

lemma set_merge_left:
  "(l, v) \<in> set (merge_left lk rk ls rs) \<longleftrightarrow>
     l \<in> set ls \<and>
     (case v of None \<Rightarrow> (\<forall>r\<in>set rs. rk r \<noteq> lk l) | Some r \<Rightarrow> r \<in> set rs \<and> rk r = lk l)"
proof -
  have one: "(l, v) \<in> set (case filter (\<lambda>r. rk r = lk x) rs of
                 [] \<Rightarrow> [(x, None)] | ms \<Rightarrow> map (\<lambda>r. (x, Some r)) ms) \<longleftrightarrow>
        l = x \<and> (case v of None \<Rightarrow> (\<forall>r\<in>set rs. rk r \<noteq> lk l)
                  | Some r \<Rightarrow> r \<in> set rs \<and> rk r = lk l)" for x
  proof (cases "filter (\<lambda>r. rk r = lk x) rs")
    case Nil
    then show ?thesis
      by (auto simp: filter_empty_conv split: option.splits)
  next
    case (Cons m ms)
    have "set (m # ms) = {r \<in> set rs. rk r = lk x}"
      using Cons[symmetric] by simp
    then show ?thesis
      using Cons by (auto split: option.splits)
  qed
  show ?thesis
    unfolding merge_left_def by (auto simp: one)
qed

lemma filter_distinct_key:
  "distinct (map f xs) \<Longrightarrow>
    (case filter (\<lambda>r. f r = k) xs of [] \<Rightarrow> [(l, None)] | ms \<Rightarrow> map (\<lambda>r. (l, Some r)) ms)
      = [(l, find (\<lambda>r. f r = k) xs)]"
proof (induction xs)
  case Nil then show ?case by simp
next
  case (Cons x xs)
  then show ?case
    by (auto simp: filter_empty_conv image_iff split: list.splits)
qed

lemma merge_left_distinct:
  "distinct (map rk rs) \<Longrightarrow>
     merge_left lk rk ls rs = map (\<lambda>l. (l, find (\<lambda>r. rk r = lk l) rs)) ls"
  unfolding merge_left_def by (induction ls) (simp_all add: filter_distinct_key)

lemma series_max_eq: "series_max xs = Some m \<longleftrightarrow> xs \<noteq> [] \<and> m = Max (set xs)"
  by (cases xs) (auto simp: Max.set_eq_fold[symmetric] simp del: set_simps)

lemma set_group_sizes:
  "set (group_sizes ks) = (\<lambda>k. length (filter (\<lambda>x. x = Some k) ks)) ` {k. Some k \<in> set ks}"
  unfolding group_sizes_def List.map_filter_def by force

lemma count_pos: "x \<in> set xs \<Longrightarrow> 0 < length (filter (\<lambda>y. y = x) xs)"
  by (induction xs) auto

lemma count_zero: "x \<notin> set xs \<Longrightarrow> length (filter (\<lambda>y. y = x) xs) = 0"
  by (induction xs) auto

lemma group_sizes_one_iff:
  "series_max (group_sizes ks) = Some 1 \<longleftrightarrow>
     (\<exists>k. Some k \<in> set ks) \<and> (\<forall>k. length (filter (\<lambda>x. x = Some k) ks) \<le> 1)"
proof -
  let ?n = "\<lambda>k. length (filter (\<lambda>x. x = Some k) ks)"
  let ?S = "set (group_sizes ks)"
  have S: "?S = ?n ` {k. Some k \<in> set ks}" by (rule set_group_sizes)
  have ne: "group_sizes ks \<noteq> [] \<longleftrightarrow> (\<exists>k. Some k \<in> set ks)"
    using S by (metis (mono_tags, lifting) Collect_empty_eq image_is_empty set_empty)
  have pos: "\<forall>x\<in>?S. 0 < x" using S count_pos by fastforce
  show ?thesis
  proof
    assume "series_max (group_sizes ks) = Some 1"
    then have g: "group_sizes ks \<noteq> []" and m: "Max ?S = 1"
      by (simp_all add: series_max_eq)
    have le: "\<forall>x\<in>?S. x \<le> 1" using m g by (metis List.finite_set Max_ge)
    have "?n k \<le> 1" for k
    proof (cases "Some k \<in> set ks")
      case True
      then have "?n k \<in> ?S" using S by blast
      then show ?thesis using le by blast
    next
      case False
      then show ?thesis by (simp add: count_zero)
    qed
    then show "(\<exists>k. Some k \<in> set ks) \<and> (\<forall>k. ?n k \<le> 1)" using g ne by blast
  next
    assume a: "(\<exists>k. Some k \<in> set ks) \<and> (\<forall>k. ?n k \<le> 1)"
    then have g: "group_sizes ks \<noteq> []" using ne by blast
    have "\<forall>x\<in>?S. x = 1"
    proof
      fix x assume x: "x \<in> ?S"
      then obtain k where "x = ?n k" using S by blast
      then have "x \<le> 1" using a by blast
      moreover have "0 < x" using pos x by blast
      ultimately show "x = 1" by simp
    qed
    then have "?S = {1}" using g by (metis (full_types) all_not_in_conv insertI1 set_empty subsetI subset_antisym subset_singletonD)
    then have "Max ?S = 1" by simp
    then show "series_max (group_sizes ks) = Some 1" using g by (simp add: series_max_eq)
  qed
qed

lemma and_then_Inl [simp]: "and_then (Inl e, s) f = (Inl e, s)"
  by (simp add: and_then_def)

lemma and_then_Inr [simp]: "and_then (Inr x, s) f = f x s"
  by (simp add: and_then_def)

lemma and_then_eq_Inr:
  "and_then m f = (Inr y, s') \<longleftrightarrow> (\<exists>x s1. m = (Inr x, s1) \<and> f x s1 = (Inr y, s'))"
  by (cases m; cases "fst m") (auto simp: and_then_def)


text \<open>The working table before the merge of line 86, row by row.\<close>

lemma assign_date:
  "map2 (\<lambda>r d. r\<lparr>n_transaction_date := d\<rparr>) rows (map to_datetime_cell (map n_transaction_date rows))
     = map (\<lambda>r. r\<lparr>n_transaction_date := to_datetime_cell (n_transaction_date r)\<rparr>) rows"
  by (simp add: map2_map_self)

lemma scd_filter_Inr:
  assumes "scd_filter rows s = (Inr kept, s')"
  shows "s' = s\<lparr>dim_customer := map coerced_version (dim_customer s)\<rparr> \<and>
         kept = scd_match
                  (map (\<lambda>r. r\<lparr>n_transaction_date := to_datetime_cell (n_transaction_date r)\<rparr>) rows)
                  (map coerced_version (dim_customer s))"
proof -
  obtain r s1 where c: "coerce_customer_dates s = (r, s1)" by force
  show ?thesis
  proof (cases r)
    case (Inl e)
    then show ?thesis using assms c by (simp add: scd_filter_def)
  next
    case (Inr u)
    then have s1: "s1 = s\<lparr>dim_customer := map coerced_version (dim_customer s)\<rparr>"
      using coerce_customer_dates_cases[OF c] by auto
    show ?thesis
    proof (cases "to_datetime (map n_transaction_date rows)")
      case (Inl e)
      then show ?thesis using assms c Inr by (simp add: scd_filter_def)
    next
      case d: (Inr dates)
      have "dates = map to_datetime_cell (map n_transaction_date rows)"
        using to_datetime_Inr[OF d] by simp
      then show ?thesis
        using assms c Inr d s1 by (simp add: scd_filter_def assign_date del: map_map)
    qed
  qed
qed

lemma scd_filter_state:
  assumes "scd_filter rows s = (r, s')"
  shows "s' = s \<or> s' = s\<lparr>dim_customer := map coerced_from (dim_customer s)\<rparr> \<or>
         s' = s\<lparr>dim_customer := map coerced_version (dim_customer s)\<rparr>"
proof -
  obtain r1 s1 where c: "coerce_customer_dates s = (r1, s1)" by force
  have "s' = s1"
    using assms c by (cases r1) (auto simp: scd_filter_def split: sum.splits)
  then show ?thesis using coerce_customer_dates_cases[OF c] by auto
qed


text \<open>The rows that survive the filter are matched rows.\<close>

lemma in_interval_iff:
  "in_interval (r, v) \<longleftrightarrow>
     (\<exists>d f x t. v = Some d \<and> dc_effective_from d = Stamp f \<and> n_transaction_date r = Stamp x \<and>
        dc_effective_to d = Stamp t \<and> f \<le> x \<and> x \<le> t)"
proof (cases v)
  case None
  then show ?thesis by (simp add: in_interval_def effective_from_def)
next
  case (Some d)
  then show ?thesis
    by (cases "dc_effective_from d"; cases "n_transaction_date r"; cases "dc_effective_to d")
       (auto simp: in_interval_def effective_from_def effective_to_def)
qed

lemma set_scd_match:
  "(r, v) \<in> set (scd_match rows versions) \<longleftrightarrow>
     r \<in> set rows \<and>
     (\<exists>d f x t. v = Some d \<and> d \<in> set versions \<and> dc_customer_id d = n_customer_id r \<and>
        dc_effective_from d = Stamp f \<and> n_transaction_date r = Stamp x \<and>
        dc_effective_to d = Stamp t \<and> f \<le> x \<and> x \<le> t)"
  unfolding scd_match_def
  by (auto simp: set_merge_left in_interval_iff)

lemma check_and_drop_Inr:
  "check_and_drop kept = Inr resolved \<longleftrightarrow>
     resolved = map drop_scd_columns kept \<and>
     (\<exists>p\<in>set kept. n_transaction_id (fst p) \<noteq> None) \<and>
     (\<forall>k. length (rows_of (Some k) kept) \<le> 1)"
proof -
  have len: "length (filter (\<lambda>x. x = Some k) (map (\<lambda>p. n_transaction_id (fst p)) kept))
      = length (rows_of (Some k) kept)" for k
    by (simp add: rows_of_def filter_map comp_def)
  have ex: "(\<exists>k. Some k \<in> set (map (\<lambda>p. n_transaction_id (fst p)) kept)) \<longleftrightarrow>
      (\<exists>p\<in>set kept. n_transaction_id (fst p) \<noteq> None)"
  proof
    assume "\<exists>k. Some k \<in> set (map (\<lambda>p. n_transaction_id (fst p)) kept)"
    then obtain k p where "p \<in> set kept" "Some k = n_transaction_id (fst p)" by auto
    then show "\<exists>p\<in>set kept. n_transaction_id (fst p) \<noteq> None"
      by (metis option.distinct(1))
  next
    assume "\<exists>p\<in>set kept. n_transaction_id (fst p) \<noteq> None"
    then obtain p k where "p \<in> set kept" "n_transaction_id (fst p) = Some k" by auto
    then have "Some k \<in> set (map (\<lambda>p. n_transaction_id (fst p)) kept)" by force
    then show "\<exists>k. Some k \<in> set (map (\<lambda>p. n_transaction_id (fst p)) kept)" ..
  qed
  show ?thesis
    unfolding check_and_drop_def group_sizes_one_iff len ex by auto
qed


subsection \<open>The function, stage by stage\<close>

lemma filtered_table_Inr:
  assumes "filtered_table txs s = (Inr kept, s1)"
  shows "s1 = s\<lparr>dim_customer := map coerced_version (dim_customer s)\<rparr> \<and>
         kept = scd_match (map prepared_row txs) (map coerced_version (dim_customer s)) \<and>
         Raw None \<notin> set (map timestamp txs)"
proof -
  obtain rows where st: "standardize txs = Inr rows" and f: "scd_filter rows s = (Inr kept, s1)"
    using assms by (cases "standardize txs") (auto simp: filtered_table_def)
  have rows: "rows = map (\<lambda>t. standardize_row t (to_datetime_cell (timestamp t))) txs"
    using st by (rule standardize_Inr)
  have "Raw None \<notin> set (map timestamp txs)"
    using st by (auto simp: standardize_def dest!: to_datetime_Inl split: sum.splits simp: to_datetime_def split: if_splits)
  moreover have "map (\<lambda>r. r\<lparr>n_transaction_date := to_datetime_cell (n_transaction_date r)\<rparr>) rows
      = map prepared_row txs"
    unfolding rows by (simp add: prepared_row_def standardize_row_def)
  ultimately show ?thesis using scd_filter_Inr[OF f] by simp
qed

lemma filtered_table_state:
  assumes "filtered_table txs s = (r, s')"
  shows "s' = s \<or> s' = s\<lparr>dim_customer := map coerced_from (dim_customer s)\<rparr> \<or>
         s' = s\<lparr>dim_customer := map coerced_version (dim_customer s)\<rparr>"
  using assms scd_filter_state
  by (cases "standardize txs") (auto simp: filtered_table_def)


lemma resolved_table_of_filtered:
  "filtered_table txs s = (Inr kept, s1) \<Longrightarrow> resolved_table txs s = (check_and_drop kept, s1)"
  by (simp add: resolved_table_def)

lemma resolved_table_Inr:
  "resolved_table txs s = (Inr resolved, s1) \<longleftrightarrow>
     (\<exists>kept. filtered_table txs s = (Inr kept, s1) \<and> check_and_drop kept = Inr resolved)"
  by (auto simp: resolved_table_def and_then_eq_Inr)

lemma resolved_table_state:
  assumes "resolved_table txs s = (r, s')"
  shows "s' = s \<or> s' = s\<lparr>dim_customer := map coerced_from (dim_customer s)\<rparr> \<or>
         s' = s\<lparr>dim_customer := map coerced_version (dim_customer s)\<rparr>"
proof -
  obtain r0 s0 where f: "filtered_table txs s = (r0, s0)" by force
  have "s' = s0" using assms f by (cases r0) (auto simp: resolved_table_def)
  then show ?thesis using filtered_table_state[OF f] by simp
qed

lemma assign_dd_date:
  "map2 (\<lambda>d c. d\<lparr>dd_date := c\<rparr>) ds (map to_datetime_cell (map dd_date ds)) = map coerced_date ds"
  by (simp add: map2_map_self coerced_date_def)

lemma resolve_keys_state:
  assumes "resolve_keys rows s = (r, s')"
  shows "s' = s \<or> s' = s\<lparr>dim_date := map coerced_date (dim_date s)\<rparr>"
  using assms unfolding resolve_keys_def
  by (auto simp: Let_def assign_dd_date simp del: map_map split: sum.splits dest!: to_datetime_Inr)


lemma three_merges:
  "map (\<lambda>l. (l, find (\<lambda>r. dd_date r = r_transaction_date (fst (fst l))) dates))
     (map (\<lambda>l. (l, find (\<lambda>r. cat_category r = r_category (fst l)) categories))
       (map (\<lambda>l. (l, find (\<lambda>r. cur_transaction_currency r = r_transaction_currency l) currencies))
         rows))
   = map (keyed_row_of currencies categories dates) rows"
  by (simp add: keyed_row_of_def)

lemma resolve_keys_Inr:
  assumes "resolve_keys rows s = (Inr keyed, s')"
  shows "s' = s\<lparr>dim_date := map coerced_date (dim_date s)\<rparr> \<and>
         keyed = map (keyed_row_of (dim_currency s) (dim_category s) (dim_date s')) rows \<and>
         distinct (map cur_transaction_currency (dim_currency s)) \<and>
         distinct (map cat_category (dim_category s)) \<and>
         Raw None \<notin> set (map dd_date (dim_date s)) \<and>
         distinct (map dd_date (dim_date s'))"
  using assms unfolding resolve_keys_def
  by (auto simp: Let_def assign_dd_date merge_many_to_one_def merge_left_distinct three_merges
      simp del: map_map split: sum.splits if_splits dest!: to_datetime_Inr)

lemma publish_Inr:
  "publish rows s = (Inr facts, s') \<longleftrightarrow>
     facts = map select_fact_columns rows \<and>
     s' = s\<lparr>output_file := Some (to_csv facts)\<rparr> \<and>
     isnull_sum (map f_customer_key facts) = 0 \<and> isnull_sum (map f_currency_key facts) = 0 \<and>
     isnull_sum (map f_category_key facts) = 0 \<and> isnull_sum (map f_date_key facts) = 0"
  unfolding publish_def by (auto simp: Let_def)

lemma publish_Inl:
  "publish rows s = (Inl e, s') \<Longrightarrow>
     s' = s \<and> (\<exists>c. e = AssertionError (missing_message c) \<and>
                 c \<in> {''customer_key'', ''currency_key'', ''category_key'', ''date_key''})"
  unfolding publish_def by (auto simp: Let_def split: if_splits)

lemma keyed_table_Inr:
  "keyed_table txs s = (Inr keyed, s2) \<longleftrightarrow>
     (\<exists>resolved s1. resolved_table txs s = (Inr resolved, s1) \<and>
        resolve_keys resolved s1 = (Inr keyed, s2))"
  by (simp add: keyed_table_def and_then_eq_Inr)

lemma build_of_keyed:
  "keyed_table txs s = (Inr keyed, s2) \<Longrightarrow> build_fact_transactions txs s = publish keyed s2"
  by (simp add: build_fact_transactions_def)

lemma build_Inr:
  "build_fact_transactions txs s = (Inr facts, s') \<longleftrightarrow>
     (\<exists>keyed s2. keyed_table txs s = (Inr keyed, s2) \<and> publish keyed s2 = (Inr facts, s'))"
  by (simp add: build_fact_transactions_def and_then_eq_Inr)

lemma build_of_resolved_Inl:
  "resolved_table txs s = (Inl e, s1) \<Longrightarrow> build_fact_transactions txs s = (Inl e, s1)"
  by (simp add: build_fact_transactions_def keyed_table_def)

subsection \<open>What a call leaves of the tables and the file\<close>



lemma keyed_table_frame:
  assumes "keyed_table txs s = (r, s2)"
  shows "output_file s2 = output_file s \<and> dim_currency s2 = dim_currency s \<and>
         dim_category s2 = dim_category s \<and>
         (dim_customer s2 = dim_customer s \<or> dim_customer s2 = map coerced_from (dim_customer s) \<or>
          dim_customer s2 = map coerced_version (dim_customer s)) \<and>
         (dim_date s2 = dim_date s \<or> dim_date s2 = map coerced_date (dim_date s))"
proof -
  obtain r1 s1 where r1: "resolved_table txs s = (r1, s1)" by force
  note st = resolved_table_state[OF r1]
  show ?thesis
  proof (cases r1)
    case (Inl e)
    then have "s2 = s1" using assms r1 by (simp add: keyed_table_def)
    then show ?thesis using st by auto
  next
    case (Inr resolved)
    then have "resolve_keys resolved s1 = (r, s2)" using assms r1 by (simp add: keyed_table_def)
    from resolve_keys_state[OF this] show ?thesis using st by auto
  qed
qed

lemma build_frame:
  assumes "build_fact_transactions txs s = (r, s')"
  shows "dim_currency s' = dim_currency s \<and> dim_category s' = dim_category s \<and>
         (dim_customer s' = dim_customer s \<or> dim_customer s' = map coerced_from (dim_customer s) \<or>
          dim_customer s' = map coerced_version (dim_customer s)) \<and>
         (dim_date s' = dim_date s \<or> dim_date s' = map coerced_date (dim_date s)) \<and>
         (case r of Inl e \<Rightarrow> output_file s' = output_file s
          | Inr facts \<Rightarrow> output_file s' = Some (to_csv facts))"
proof -
  obtain r2 s2 where k: "keyed_table txs s = (r2, s2)" by force
  note fr = keyed_table_frame[OF k]
  show ?thesis
  proof (cases r2)
    case (Inl e)
    then have "r = Inl e" "s' = s2" using assms k by (simp_all add: build_fact_transactions_def)
    then show ?thesis using fr by simp
  next
    case (Inr keyed)
    then have p: "publish keyed s2 = (r, s')" using assms k by (simp add: build_fact_transactions_def)
    show ?thesis
    proof (cases r)
      case (Inl e)
      then have "s' = s2" using p publish_Inl by blast
      then show ?thesis using fr Inl by simp
    next
      case facts: (Inr facts)
      then have "s' = s2\<lparr>output_file := Some (to_csv facts)\<rparr>" using p by (simp add: publish_Inr)
      then show ?thesis using fr facts by simp
    qed
  qed
qed

lemma build_success_tables:
  assumes "build_fact_transactions txs s = (Inr facts, s')"
  shows "dim_customer s' = map coerced_version (dim_customer s) \<and>
         dim_date s' = map coerced_date (dim_date s)"
proof -
  from assms obtain keyed s2 where k: "keyed_table txs s = (Inr keyed, s2)"
    and p: "publish keyed s2 = (Inr facts, s')"
    by (auto simp: build_Inr)
  obtain resolved s1 where r: "resolved_table txs s = (Inr resolved, s1)"
    and rk: "resolve_keys resolved s1 = (Inr keyed, s2)"
    using k by (auto simp: keyed_table_Inr)
  obtain kept where f: "filtered_table txs s = (Inr kept, s1)"
    using r by (auto simp: resolved_table_Inr)
  have s1: "s1 = s\<lparr>dim_customer := map coerced_version (dim_customer s)\<rparr>"
    using filtered_table_Inr[OF f] by simp
  have s2: "s2 = s1\<lparr>dim_date := map coerced_date (dim_date s1)\<rparr>"
    using resolve_keys_Inr[OF rk] by simp
  have "s' = s2\<lparr>output_file := Some (to_csv facts)\<rparr>"
    using p by (simp add: publish_Inr)
  then show ?thesis by (simp add: s1 s2)
qed

subsection \<open>The fact rows, column by column\<close>

lemma facts_of_kept:
  assumes "build_fact_transactions txs s = (Inr facts, s')"
  shows "\<exists>kept s1. filtered_table txs s = (Inr kept, s1) \<and>
     facts = map (\<lambda>p.
       \<lparr> f_transaction_id = n_transaction_id (fst p),
         f_transaction_key = n_transaction_key (fst p),
         f_customer_key = customer_key p,
         f_currency_key =
           (case find (\<lambda>d. cur_transaction_currency d = n_transaction_currency (fst p))
                   (dim_currency s) of
              None \<Rightarrow> None | Some d \<Rightarrow> cur_currency_key d),
         f_category_key =
           (case find (\<lambda>d. cat_category d = n_category (fst p)) (dim_category s) of
              None \<Rightarrow> None | Some d \<Rightarrow> cat_category_key d),
         f_date_key =
           (case find (\<lambda>d. dd_date d = n_transaction_date (fst p))
                   (map coerced_date (dim_date s)) of
              None \<Rightarrow> None | Some d \<Rightarrow> dd_date_key d),
         f_transaction_timestamp = n_transaction_timestamp (fst p),
         f_transaction_amount_eur = n_transaction_amount_eur (fst p),
         f_current_exchange_rate = n_current_exchange_rate (fst p),
         f_is_high_value_transaction = n_is_high_value_transaction (fst p) \<rparr>) kept"
proof -
  from assms obtain keyed s2 where k: "keyed_table txs s = (Inr keyed, s2)"
    and p: "publish keyed s2 = (Inr facts, s')"
    by (auto simp: build_Inr)
  obtain resolved s1 where r: "resolved_table txs s = (Inr resolved, s1)"
    and rk: "resolve_keys resolved s1 = (Inr keyed, s2)"
    using k by (auto simp: keyed_table_Inr)
  obtain kept where f: "filtered_table txs s = (Inr kept, s1)"
    and c: "check_and_drop kept = Inr resolved"
    using r by (auto simp: resolved_table_Inr)
  have s1: "dim_currency s1 = dim_currency s" "dim_category s1 = dim_category s"
    "dim_date s1 = dim_date s"
    using filtered_table_Inr[OF f] by simp_all
  have facts: "facts = map select_fact_columns keyed"
    using p by (simp add: publish_Inr)
  have keyed: "keyed = map (keyed_row_of (dim_currency s) (dim_category s)
      (map coerced_date (dim_date s))) resolved"
    using resolve_keys_Inr[OF rk] s1 by simp
  have resolved: "resolved = map drop_scd_columns kept"
    using c by (simp add: check_and_drop_Inr)
  show ?thesis
    using f unfolding facts keyed resolved
    by (simp add: select_fact_columns_def keyed_row_of_def drop_scd_columns_def
        currency_key_def category_key_def date_key_def Let_def comp_def)
qed

lemma kept_of_transaction:
  assumes "filtered_table txs s = (Inr kept, s1)" and "p \<in> set kept"
  shows "\<exists>t\<in>set txs.
     n_transaction_id (fst p) = transaction_id t \<and>
     n_transaction_key (fst p) = transaction_key t \<and>
     n_transaction_timestamp (fst p) = to_datetime_cell (timestamp t) \<and>
     n_transaction_amount_eur (fst p) = amount_eur t \<and>
     n_current_exchange_rate (fst p) = exchange_rate t \<and>
     n_transaction_currency (fst p) = transaction_currency t \<and>
     n_category (fst p) = category t \<and>
     n_transaction_date (fst p) = to_datetime_cell (dt_date (to_datetime_cell (timestamp t))) \<and>
     n_is_high_value_transaction (fst p) = (if (\<exists>a. amount_eur t = Some a \<and> 500 < a) then 1 else 0)"
proof -
  have "(fst p, snd p) \<in> set (scd_match (map prepared_row txs)
      (map coerced_version (dim_customer s)))"
    using filtered_table_Inr[OF assms(1)] assms(2) by simp
  then have "fst p \<in> set (map prepared_row txs)"
    unfolding set_scd_match by blast
  then obtain t where t: "t \<in> set txs" "fst p = prepared_row t" by auto
  have "n_is_high_value_transaction (prepared_row t)
      = (if (\<exists>a. amount_eur t = Some a \<and> 500 < a) then 1 else 0)"
    by (cases "amount_eur t") (simp_all add: prepared_row_def standardize_row_def gt_500_def astype_int_def)
  then show ?thesis
    using t by (auto simp: prepared_row_def standardize_row_def intro!: bexI[of _ t])
qed

section \<open>The high-value flag\<close>

text \<open>
  C5. When the normalizer returns a table, it has one row per transaction, in the
  order of the transactions, and the flag of a row is 0 or 1: it is 1 exactly when the
  transaction has an amount and the amount is greater than 500. An amount of 500 gives
  0 and an amount of 500.01 gives 1. A null amount gives 0, the comparison being
  false.
\<close>

theorem high_value_flag:
  assumes "standardize txs = Inr rows" and "i < length txs"
  shows "length rows = length txs \<and>
         n_transaction_id (rows ! i) = transaction_id (txs ! i) \<and>
         n_transaction_amount_eur (rows ! i) = amount_eur (txs ! i) \<and>
         n_is_high_value_transaction (rows ! i) \<in> {0, 1} \<and>
         (n_is_high_value_transaction (rows ! i) = 1 \<longleftrightarrow>
            (\<exists>a. amount_eur (txs ! i) = Some a \<and> 500 < a)) \<and>
         (amount_eur (txs ! i) = Some 500 \<longrightarrow> n_is_high_value_transaction (rows ! i) = 0) \<and>
         (amount_eur (txs ! i) = Some 500.01 \<longrightarrow> n_is_high_value_transaction (rows ! i) = 1)"
proof -
  have rows: "rows = map (\<lambda>t. standardize_row t (to_datetime_cell (timestamp t))) txs"
    using assms(1) by (rule standardize_Inr)
  show ?thesis
    using assms(2) unfolding rows
    by (cases "amount_eur (txs ! i)") (simp_all add: standardize_row_def gt_500_def astype_int_def)
qed

theorem high_value_flag_witness:
  "\<exists>rows. standardize scenario_txns = Inr rows \<and> length rows = 3 \<and>
     n_is_high_value_transaction (rows ! 0) = 0 \<and>
     n_is_high_value_transaction (rows ! 1) = 1 \<and>
     n_is_high_value_transaction (rows ! 2) = 0"
proof -
  obtain rows where s: "standardize scenario_txns = Inr rows"
    by (simp add: standardize_def to_datetime_def scenario_txns_def ex_txn_def)
  have n: "length scenario_txns = 3"
    by (simp add: scenario_txns_def)
  have a: "amount_eur (scenario_txns ! 0) = Some 500"
    "amount_eur (scenario_txns ! 1) = Some 500.01"
    "amount_eur (scenario_txns ! 2) = Some 20"
    by (simp_all add: scenario_txns_def ex_txn_def)
  have "n_is_high_value_transaction (rows ! 0) = 0"
    using high_value_flag[OF s, of 0] n a by simp
  moreover have "n_is_high_value_transaction (rows ! 1) = 1"
    using high_value_flag[OF s, of 1] n a by simp
  moreover have "n_is_high_value_transaction (rows ! 2) = 0"
    using high_value_flag[OF s, of 2] n a by auto
  moreover have "length rows = 3"
    using high_value_flag[OF s, of 0] n by simp
  ultimately show ?thesis using s by blast
qed

section \<open>The temporal resolver\<close>

text \<open>
  C3. A row of the merged table survives the filter of lines 93 to 96 exactly when it
  pairs a transaction with a version of the same \<open>customer_id\<close> whose
  \<open>effective_from\<close>, the transaction's date and \<open>effective_to\<close> are datetimes
  (none is null) with \<open>effective_from <= transaction_date <= effective_to\<close>, both
  bounds included. The table the function has after line 96 is this filtered merge of
  the prepared transactions with the converted versions. On the scenario of the
  specification the function returns the customer keys 100, 101 and 101 for the
  transactions of 2024-06-15, 2024-07-02 and 2024-12-25.
\<close>

theorem temporal_match:
  "((r, v) \<in> set (scd_match rows versions) \<longleftrightarrow>
      r \<in> set rows \<and>
      (\<exists>d f x t. v = Some d \<and> d \<in> set versions \<and> dc_customer_id d = n_customer_id r \<and>
         dc_effective_from d = Stamp f \<and> n_transaction_date r = Stamp x \<and>
         dc_effective_to d = Stamp t \<and> f \<le> x \<and> x \<le> t)) \<and>
   (filtered_table txs s = (Inr kept, s1) \<longrightarrow>
      kept = scd_match (map prepared_row txs) (map coerced_version (dim_customer s))) \<and>
   (\<exists>facts. fst (build_fact_transactions scenario_txns (ex_tables scenario_versions)) = Inr facts \<and>
      map (\<lambda>r. (f_transaction_id r, f_customer_key r)) facts =
        [(Some ''T1'', Some 100), (Some ''T2'', Some 101), (Some ''T3'', Some 101)])"
proof (intro conjI impI)
  show "(r, v) \<in> set (scd_match rows versions) \<longleftrightarrow>
      r \<in> set rows \<and>
      (\<exists>d f x t. v = Some d \<and> d \<in> set versions \<and> dc_customer_id d = n_customer_id r \<and>
         dc_effective_from d = Stamp f \<and> n_transaction_date r = Stamp x \<and>
         dc_effective_to d = Stamp t \<and> f \<le> x \<and> x \<le> t)"
    by (rule set_scd_match)
next
  assume "filtered_table txs s = (Inr kept, s1)"
  then show "kept = scd_match (map prepared_row txs) (map coerced_version (dim_customer s))"
    using filtered_table_Inr by blast
next
  show "\<exists>facts. fst (build_fact_transactions scenario_txns (ex_tables scenario_versions)) = Inr facts \<and>
      map (\<lambda>r. (f_transaction_id r, f_customer_key r)) facts =
        [(Some ''T1'', Some 100), (Some ''T2'', Some 101), (Some ''T3'', Some 101)]"
    by (simp add: stage_defs fixture_defs)
qed

text \<open>
  The bounds are included: after line 96 the transaction on the last day of V1 is
  paired with V1 and not with V2, and the one on the first day of V2 with V2 and not
  with V1.
\<close>

theorem temporal_match_witness:
  "\<exists>kept s1.
     filtered_table boundary_txns (ex_tables scenario_versions) = (Inr kept, s1) \<and>
     (prepared_row (boundary_txns ! 0), Some (coerced_version (scenario_versions ! 0))) \<in> set kept \<and>
     (prepared_row (boundary_txns ! 0), Some (coerced_version (scenario_versions ! 1))) \<notin> set kept \<and>
     (prepared_row (boundary_txns ! 1), Some (coerced_version (scenario_versions ! 1))) \<in> set kept \<and>
     (prepared_row (boundary_txns ! 1), Some (coerced_version (scenario_versions ! 0))) \<notin> set kept \<and>
     map (\<lambda>p. (n_transaction_id (fst p), customer_key p)) kept
       = [(Some ''B1'', Some 100), (Some ''B2'', Some 101)]"
proof -
  let ?rows = "map prepared_row boundary_txns"
  let ?versions = "map coerced_version scenario_versions"
  note defs = prepared_row_def coerced_version_def standardize_row_def stage_defs fixture_defs
    boundary_txns_def
  obtain kept s1 where
    f: "filtered_table boundary_txns (ex_tables scenario_versions) = (Inr kept, s1)"
    by (simp add: defs)
  have "kept = scd_match (map prepared_row boundary_txns)
      (map coerced_version (dim_customer (ex_tables scenario_versions)))"
    using temporal_match[of _ _ _ _ boundary_txns "ex_tables scenario_versions" kept s1] f
    by blast
  then have kept: "kept = scd_match ?rows ?versions"
    by (simp add: ex_tables_def)
  note iff = temporal_match[THEN conjunct1, of _ _ ?rows ?versions]
  have m1: "(prepared_row (boundary_txns ! 0), Some (coerced_version (scenario_versions ! 0)))
      \<in> set kept"
    unfolding kept iff by (simp add: defs)
  have m2: "(prepared_row (boundary_txns ! 0), Some (coerced_version (scenario_versions ! 1)))
      \<notin> set kept"
    unfolding kept iff by (simp add: defs)
  have m3: "(prepared_row (boundary_txns ! 1), Some (coerced_version (scenario_versions ! 1)))
      \<in> set kept"
    unfolding kept iff by (simp add: defs)
  have m4: "(prepared_row (boundary_txns ! 1), Some (coerced_version (scenario_versions ! 0)))
      \<notin> set kept"
    unfolding kept iff by (simp add: defs)
  have m5: "map (\<lambda>p. (n_transaction_id (fst p), customer_key p)) kept
       = [(Some ''B1'', Some 100), (Some ''B2'', Some 101)]"
    using f by (auto simp: defs)
  show ?thesis
    by (rule exI[of _ kept], rule exI[of _ s1]) (simp only: f m1 m2 m3 m4 m5 simp_thms)
qed

section \<open>Gaps and overlaps\<close>

text \<open>
  C1. A transaction whose date is in no validity interval of its customer should end
  the call with an error. The function does not do so: on the gap fixture, transaction
  T2 lies before the one version of its customer, no row of T2 survives the filter, and
  the function returns a fact table with the row of T1 alone and writes it. The
  assertion of line 99 looks at the largest group only.
\<close>

theorem gap_transaction_dropped:
  "map transaction_id gap_txns = [Some ''T1'', Some ''T2''] \<and>
   (\<exists>kept. fst (filtered_table gap_txns (ex_tables gap_versions)) = Inr kept \<and>
      rows_of (Some ''T2'') kept = []) \<and>
   (\<exists>facts. fst (build_fact_transactions gap_txns (ex_tables gap_versions)) = Inr facts \<and>
      map f_transaction_id facts = [Some ''T1''] \<and>
      output_file (snd (build_fact_transactions gap_txns (ex_tables gap_versions)))
        = Some (to_csv facts))"
  by (simp add: stage_defs fixture_defs)

text \<open>
  What the assertion of lines 99 and 100 does catch. When a \<open>transaction_id\<close> that
  is not null has more than one row after the filter, the function raises the assertion
  error, with the tables as the filter left them and no file written. When the function
  returns, no \<open>transaction_id\<close> that is not null has more than one row after the
  filter, and the fact rows carry the \<open>transaction_id\<close> and the \<open>customer_key\<close>
  of the surviving rows, in their order.
\<close>

lemma keyed_overlap_aborts:
  "(filtered_table txs s = (Inr kept, s1) \<and> 1 < length (rows_of (Some k) kept) \<longrightarrow>
      build_fact_transactions txs s = (Inl (AssertionError scd_message), s1)) \<and>
   (build_fact_transactions txs s = (Inr facts, s') \<longrightarrow>
      (\<exists>kept s1. filtered_table txs s = (Inr kept, s1) \<and>
         (\<forall>k. length (rows_of (Some k) kept) \<le> 1) \<and>
         map f_transaction_id facts = map (\<lambda>p. n_transaction_id (fst p)) kept \<and>
         map f_customer_key facts = map customer_key kept))"
proof (intro conjI impI)
  assume a: "filtered_table txs s = (Inr kept, s1) \<and> 1 < length (rows_of (Some k) kept)"
  then have "\<not> (\<forall>k. length (rows_of (Some k) kept) \<le> 1)"
    by (metis not_less)
  then have "\<forall>resolved. check_and_drop kept \<noteq> Inr resolved"
    by (simp add: check_and_drop_Inr)
  then have "check_and_drop kept = Inl (AssertionError scd_message)"
    by (simp add: check_and_drop_def split: if_splits)
  then have "resolved_table txs s = (Inl (AssertionError scd_message), s1)"
    using a resolved_table_of_filtered by simp
  then show "build_fact_transactions txs s = (Inl (AssertionError scd_message), s1)"
    by (rule build_of_resolved_Inl)
next
  assume "build_fact_transactions txs s = (Inr facts, s')"
  then obtain keyed s2 where k: "keyed_table txs s = (Inr keyed, s2)"
    and p: "publish keyed s2 = (Inr facts, s')"
    by (auto simp: build_Inr)
  obtain resolved s1 where r: "resolved_table txs s = (Inr resolved, s1)"
    and rk: "resolve_keys resolved s1 = (Inr keyed, s2)"
    using k by (auto simp: keyed_table_Inr)
  obtain kept where f: "filtered_table txs s = (Inr kept, s1)"
    and c: "check_and_drop kept = Inr resolved"
    using r by (auto simp: resolved_table_Inr)
  have facts: "facts = map select_fact_columns keyed"
    using p by (simp add: publish_Inr)
  have keyed: "keyed = map (keyed_row_of (dim_currency s1) (dim_category s1) (dim_date s2)) resolved"
    using resolve_keys_Inr[OF rk] by simp
  have resolved: "resolved = map drop_scd_columns kept"
    and le: "\<forall>k. length (rows_of (Some k) kept) \<le> 1"
    using c by (simp_all add: check_and_drop_Inr)
  have "map f_transaction_id facts = map (\<lambda>p. n_transaction_id (fst p)) kept"
    unfolding facts keyed resolved
    by (simp add: select_fact_columns_def keyed_row_of_def drop_scd_columns_def Let_def)
  moreover have "map f_customer_key facts = map customer_key kept"
    unfolding facts keyed resolved
    by (simp add: select_fact_columns_def keyed_row_of_def drop_scd_columns_def Let_def)
  ultimately show "\<exists>kept s1. filtered_table txs s = (Inr kept, s1) \<and>
         (\<forall>k. length (rows_of (Some k) kept) \<le> 1) \<and>
         map f_transaction_id facts = map (\<lambda>p. n_transaction_id (fst p)) kept \<and>
         map f_customer_key facts = map customer_key kept"
    using f le by blast
qed

text \<open>
  On the overlap fixture two versions hold the transaction T1 and the function raises;
  on the scenario it returns, and no transaction has two rows.
\<close>

lemma keyed_overlap_aborts_example:
  "(\<exists>kept s1. filtered_table overlap_txns (ex_tables overlap_versions) = (Inr kept, s1) \<and>
      length (rows_of (Some ''T1'') kept) = 2 \<and>
      build_fact_transactions overlap_txns (ex_tables overlap_versions)
        = (Inl (AssertionError scd_message), s1)) \<and>
   (\<exists>facts s' kept s1.
      build_fact_transactions scenario_txns (ex_tables scenario_versions) = (Inr facts, s') \<and>
      filtered_table scenario_txns (ex_tables scenario_versions) = (Inr kept, s1) \<and>
      length (rows_of (Some ''T1'') kept) \<le> 1 \<and>
      map f_transaction_id facts = map (\<lambda>p. n_transaction_id (fst p)) kept)"
proof
  obtain kept s1 where f: "filtered_table overlap_txns (ex_tables overlap_versions) = (Inr kept, s1)"
    by (simp add: stage_defs fixture_defs overlap_versions_def overlap_txns_def)
  have n: "length (rows_of (Some ''T1'') kept) = 2"
    using f by (auto simp: stage_defs fixture_defs overlap_versions_def overlap_txns_def)
  then have "1 < length (rows_of (Some ''T1'') kept)" by simp
  then have "build_fact_transactions overlap_txns (ex_tables overlap_versions)
        = (Inl (AssertionError scd_message), s1)"
    using keyed_overlap_aborts[of overlap_txns "ex_tables overlap_versions" kept s1 "''T1''"] f by blast
  then show "\<exists>kept s1. filtered_table overlap_txns (ex_tables overlap_versions) = (Inr kept, s1) \<and>
      length (rows_of (Some ''T1'') kept) = 2 \<and>
      build_fact_transactions overlap_txns (ex_tables overlap_versions)
        = (Inl (AssertionError scd_message), s1)"
    using f n by blast
next
  obtain facts s' where b: "build_fact_transactions scenario_txns (ex_tables scenario_versions) = (Inr facts, s')"
    by (simp add: stage_defs fixture_defs overlap_versions_def overlap_txns_def)
  then obtain kept s1 where "filtered_table scenario_txns (ex_tables scenario_versions) = (Inr kept, s1)"
    "\<forall>k. length (rows_of (Some k) kept) \<le> 1"
    "map f_transaction_id facts = map (\<lambda>p. n_transaction_id (fst p)) kept"
    using keyed_overlap_aborts[of scenario_txns "ex_tables scenario_versions" _ _ _ facts s'] by blast
  then show "\<exists>facts s' kept s1.
      build_fact_transactions scenario_txns (ex_tables scenario_versions) = (Inr facts, s') \<and>
      filtered_table scenario_txns (ex_tables scenario_versions) = (Inr kept, s1) \<and>
      length (rows_of (Some ''T1'') kept) \<le> 1 \<and>
      map f_transaction_id facts = map (\<lambda>p. n_transaction_id (fst p)) kept"
    using b by blast
qed

text \<open>
  C2. A transaction that more than one version of its customer holds should end the
  call with an error, and when the function returns every transaction should have
  exactly one row after the filter. The function does not do so: on the unkeyed fixture
  the transaction with no \<open>transaction_id\<close> is held by both versions, and the
  function returns a fact table that has this transaction twice, once with each
  customer key; and T2, which no version holds, has no row after the filter. The
  assertion of line 99 counts the rows of each \<open>transaction_id\<close> that is not null
  and looks at the largest count only.
\<close>

theorem overlap_not_detected:
  "map transaction_id unkeyed_txns = [None, Some ''T2'', Some ''T3''] \<and>
   (\<exists>kept. fst (filtered_table unkeyed_txns (ex_tables overlap_versions)) = Inr kept \<and>
      length (rows_of None kept) = 2 \<and> length (rows_of (Some ''T2'') kept) = 0) \<and>
   (\<exists>facts. fst (build_fact_transactions unkeyed_txns (ex_tables overlap_versions)) = Inr facts \<and>
      map (\<lambda>r. (f_transaction_id r, f_customer_key r)) facts =
        [(None, Some 100), (None, Some 101), (Some ''T3'', Some 100)])"
  by (simp add: stage_defs fixture_defs overlap_versions_def unkeyed_txns_def)

section \<open>The customer key after the filter\<close>




section \<open>The integrity checks and the file\<close>

text \<open>
  C4, as amended. When the working table after the three merges has a null in
  \<open>customer_key\<close>, \<open>currency_key\<close>, \<open>category_key\<close> or \<open>date_key\<close>, the
  function raises an assertion error whose message names the first of these columns, in
  that order, that has a null; the message carries no count of rows. Whenever the
  function raises, at any line, the file is as it was before the call: it is written
  only when the function returns.
\<close>

theorem null_key_aborts:
  "(keyed_table txs s = (Inr keyed, s2) \<longrightarrow>
      (isnull_sum (map (\<lambda>p. r_customer_key (fst (fst (fst p)))) keyed) \<noteq> 0 \<longrightarrow>
         build_fact_transactions txs s
           = (Inl (AssertionError ''Missing customer_key detected.''), s2)) \<and>
      (isnull_sum (map (\<lambda>p. r_customer_key (fst (fst (fst p)))) keyed) = 0 \<and>
       isnull_sum (map currency_key keyed) \<noteq> 0 \<longrightarrow>
         build_fact_transactions txs s
           = (Inl (AssertionError ''Missing currency_key detected.''), s2)) \<and>
      (isnull_sum (map (\<lambda>p. r_customer_key (fst (fst (fst p)))) keyed) = 0 \<and>
       isnull_sum (map currency_key keyed) = 0 \<and>
       isnull_sum (map category_key keyed) \<noteq> 0 \<longrightarrow>
         build_fact_transactions txs s
           = (Inl (AssertionError ''Missing category_key detected.''), s2)) \<and>
      (isnull_sum (map (\<lambda>p. r_customer_key (fst (fst (fst p)))) keyed) = 0 \<and>
       isnull_sum (map currency_key keyed) = 0 \<and>
       isnull_sum (map category_key keyed) = 0 \<and>
       isnull_sum (map date_key keyed) \<noteq> 0 \<longrightarrow>
         build_fact_transactions txs s
           = (Inl (AssertionError ''Missing date_key detected.''), s2)) \<and>
      output_file s2 = output_file s) \<and>
   (fst (build_fact_transactions txs s) = Inl e \<longrightarrow>
      output_file (snd (build_fact_transactions txs s)) = output_file s)"
proof (intro conjI impI)
  assume "fst (build_fact_transactions txs s) = Inl e"
  then have "build_fact_transactions txs s = (Inl e, snd (build_fact_transactions txs s))"
    by (metis prod.collapse)
  from build_frame[OF this]
  show "output_file (snd (build_fact_transactions txs s)) = output_file s"
    by simp
next
  assume k: "keyed_table txs s = (Inr keyed, s2)"
  then show "output_file s2 = output_file s"
    using keyed_table_frame by blast
next
  assume k: "keyed_table txs s = (Inr keyed, s2)"
    and "isnull_sum (map (\<lambda>p. r_customer_key (fst (fst (fst p)))) keyed) \<noteq> 0"
  then show "build_fact_transactions txs s
           = (Inl (AssertionError ''Missing customer_key detected.''), s2)"
    unfolding build_of_keyed[OF k]
    by (simp add: publish_def select_fact_columns_def Let_def comp_def missing_message_def)
next
  assume k: "keyed_table txs s = (Inr keyed, s2)"
    and "isnull_sum (map (\<lambda>p. r_customer_key (fst (fst (fst p)))) keyed) = 0 \<and>
       isnull_sum (map currency_key keyed) \<noteq> 0"
  then show "build_fact_transactions txs s
           = (Inl (AssertionError ''Missing currency_key detected.''), s2)"
    unfolding build_of_keyed[OF k]
    by (simp add: publish_def select_fact_columns_def Let_def comp_def missing_message_def)
next
  assume k: "keyed_table txs s = (Inr keyed, s2)"
    and "isnull_sum (map (\<lambda>p. r_customer_key (fst (fst (fst p)))) keyed) = 0 \<and>
       isnull_sum (map currency_key keyed) = 0 \<and>
       isnull_sum (map category_key keyed) \<noteq> 0"
  then show "build_fact_transactions txs s
           = (Inl (AssertionError ''Missing category_key detected.''), s2)"
    unfolding build_of_keyed[OF k]
    by (simp add: publish_def select_fact_columns_def Let_def comp_def missing_message_def)
next
  assume k: "keyed_table txs s = (Inr keyed, s2)"
    and "isnull_sum (map (\<lambda>p. r_customer_key (fst (fst (fst p)))) keyed) = 0 \<and>
       isnull_sum (map currency_key keyed) = 0 \<and>
       isnull_sum (map category_key keyed) = 0 \<and>
       isnull_sum (map date_key keyed) \<noteq> 0"
  then show "build_fact_transactions txs s
           = (Inl (AssertionError ''Missing date_key detected.''), s2)"
    unfolding build_of_keyed[OF k]
    by (simp add: publish_def select_fact_columns_def Let_def comp_def missing_message_def)
qed

text \<open>
  A file of an earlier run is at the destination, and one transaction is in a currency
  that \<open>dim_currency\<close> does not have: the function raises, naming
  \<open>currency_key\<close>, and the earlier file is still there.
\<close>

theorem null_key_aborts_witness:
  "(\<exists>keyed s2.
      keyed_table usd_once ((ex_tables gap_versions)\<lparr>output_file := Some (to_csv [])\<rparr>)
        = (Inr keyed, s2) \<and>
      isnull_sum (map (\<lambda>p. r_customer_key (fst (fst (fst p)))) keyed) = 0 \<and>
      isnull_sum (map currency_key keyed) = 1 \<and>
      build_fact_transactions usd_once ((ex_tables gap_versions)\<lparr>output_file := Some (to_csv [])\<rparr>)
        = (Inl (AssertionError ''Missing currency_key detected.''), s2)) \<and>
   output_file (snd (build_fact_transactions usd_once
      ((ex_tables gap_versions)\<lparr>output_file := Some (to_csv [])\<rparr>))) = Some (to_csv [])"
proof
  let ?s = "(ex_tables gap_versions)\<lparr>output_file := Some (to_csv [])\<rparr>"
  obtain keyed s2 where k: "keyed_table usd_once ?s = (Inr keyed, s2)"
    by (simp add: stage_defs fixture_defs)
  have n: "isnull_sum (map (\<lambda>p. r_customer_key (fst (fst (fst p)))) keyed) = 0"
    "isnull_sum (map currency_key keyed) = 1"
    using k by (auto simp: stage_defs fixture_defs)
  then have "build_fact_transactions usd_once ?s
        = (Inl (AssertionError ''Missing currency_key detected.''), s2)"
    using null_key_aborts[of usd_once ?s keyed s2] k by simp
  then show "\<exists>keyed s2. keyed_table usd_once ?s = (Inr keyed, s2) \<and>
      isnull_sum (map (\<lambda>p. r_customer_key (fst (fst (fst p)))) keyed) = 0 \<and>
      isnull_sum (map currency_key keyed) = 1 \<and>
      build_fact_transactions usd_once ?s
        = (Inl (AssertionError ''Missing currency_key detected.''), s2)"
    using k n by auto
  then obtain e where "fst (build_fact_transactions usd_once ?s) = Inl e" by auto
  then have "output_file (snd (build_fact_transactions usd_once ?s)) = output_file ?s"
    using null_key_aborts[of usd_once ?s _ _ e] by blast
  then show "output_file (snd (build_fact_transactions usd_once ?s)) = Some (to_csv [])"
    by simp
qed

text \<open>
  C4 as stated fails: with one row that lacks a currency key and with two, the
  function raises the same error, which names the column and counts nothing.
\<close>

theorem error_carries_no_count:
  "(\<exists>keyed. fst (keyed_table usd_once (ex_tables gap_versions)) = Inr keyed \<and>
      isnull_sum (map currency_key keyed) = 1) \<and>
   (\<exists>keyed. fst (keyed_table usd_twice (ex_tables gap_versions)) = Inr keyed \<and>
      isnull_sum (map currency_key keyed) = 2) \<and>
   fst (build_fact_transactions usd_once (ex_tables gap_versions))
     = Inl (AssertionError ''Missing currency_key detected.'') \<and>
   fst (build_fact_transactions usd_twice (ex_tables gap_versions))
     = Inl (AssertionError ''Missing currency_key detected.'')"
  by (simp add: stage_defs fixture_defs usd_twice_def)

section \<open>The caller's tables\<close>

lemma coerced_version_id:
  "dc_effective_from v = Stamp f \<Longrightarrow> dc_effective_to v = Stamp t \<Longrightarrow> coerced_version v = v"
  by (simp add: coerced_version_def)

lemma coerced_from_id:
  "dc_effective_from v = Stamp f \<Longrightarrow> coerced_from v = v"
  by (simp add: coerced_from_def)

text \<open>
  C9, as amended. A call, whether it returns or raises, leaves \<open>dim_currency\<close> and
  \<open>dim_category\<close> as they were. Of \<open>dim_customer\<close> it changes no column but
  \<open>effective_from\<close> and \<open>effective_to\<close>, and of \<open>dim_date\<close> none but
  \<open>date\<close>: these are assigned their conversion to datetimes, with a null
  \<open>effective_to\<close> replaced by 2099-12-31. When the function returns, both tables
  hold the converted columns. A \<open>dim_customer\<close> whose two date columns are datetimes
  with no null is left as it was.
\<close>

theorem tables_after_call:
  "dim_currency (snd (build_fact_transactions txs s)) = dim_currency s \<and>
   dim_category (snd (build_fact_transactions txs s)) = dim_category s \<and>
   (dim_customer (snd (build_fact_transactions txs s)) = dim_customer s \<or>
    dim_customer (snd (build_fact_transactions txs s)) = map coerced_from (dim_customer s) \<or>
    dim_customer (snd (build_fact_transactions txs s)) = map coerced_version (dim_customer s)) \<and>
   (dim_date (snd (build_fact_transactions txs s)) = dim_date s \<or>
    dim_date (snd (build_fact_transactions txs s)) = map coerced_date (dim_date s)) \<and>
   map dc_customer_id (dim_customer (snd (build_fact_transactions txs s)))
     = map dc_customer_id (dim_customer s) \<and>
   map dc_customer_key (dim_customer (snd (build_fact_transactions txs s)))
     = map dc_customer_key (dim_customer s) \<and>
   map dd_date_key (dim_date (snd (build_fact_transactions txs s)))
     = map dd_date_key (dim_date s) \<and>
   (fst (build_fact_transactions txs s) = Inr facts \<longrightarrow>
      dim_customer (snd (build_fact_transactions txs s)) = map coerced_version (dim_customer s) \<and>
      dim_date (snd (build_fact_transactions txs s)) = map coerced_date (dim_date s)) \<and>
   ((\<forall>v\<in>set (dim_customer s). \<exists>f t. dc_effective_from v = Stamp f \<and> dc_effective_to v = Stamp t) \<longrightarrow>
      dim_customer (snd (build_fact_transactions txs s)) = dim_customer s)"
proof -
  let ?r = "fst (build_fact_transactions txs s)"
  let ?s' = "snd (build_fact_transactions txs s)"
  have run: "build_fact_transactions txs s = (?r, ?s')" by simp
  note fr = build_frame[OF run]
  have cur: "dim_currency ?s' = dim_currency s" and cat: "dim_category ?s' = dim_category s"
    using fr by simp_all
  have cust: "dim_customer ?s' = dim_customer s \<or>
      dim_customer ?s' = map coerced_from (dim_customer s) \<or>
      dim_customer ?s' = map coerced_version (dim_customer s)"
    using fr by simp
  have dates: "dim_date ?s' = dim_date s \<or> dim_date ?s' = map coerced_date (dim_date s)"
    using fr by simp
  have ids: "map dc_customer_id (dim_customer ?s') = map dc_customer_id (dim_customer s)"
    using cust by (auto simp: coerced_from_def coerced_version_def)
  have keys: "map dc_customer_key (dim_customer ?s') = map dc_customer_key (dim_customer s)"
    using cust by (auto simp: coerced_from_def coerced_version_def)
  have dkeys: "map dd_date_key (dim_date ?s') = map dd_date_key (dim_date s)"
    using dates by (auto simp: coerced_date_def)
  have ok: "?r = Inr facts \<longrightarrow>
      dim_customer ?s' = map coerced_version (dim_customer s) \<and>
      dim_date ?s' = map coerced_date (dim_date s)"
  proof
    assume "?r = Inr facts"
    then have "build_fact_transactions txs s = (Inr facts, ?s')" by (metis prod.collapse)
    then show "dim_customer ?s' = map coerced_version (dim_customer s) \<and>
      dim_date ?s' = map coerced_date (dim_date s)"
      by (rule build_success_tables)
  qed
  have same: "(\<forall>v\<in>set (dim_customer s). \<exists>f t. dc_effective_from v = Stamp f \<and> dc_effective_to v = Stamp t) \<longrightarrow>
      dim_customer ?s' = dim_customer s"
  proof
    assume a: "\<forall>v\<in>set (dim_customer s). \<exists>f t. dc_effective_from v = Stamp f \<and> dc_effective_to v = Stamp t"
    then have "\<forall>v\<in>set (dim_customer s). coerced_version v = v \<and> coerced_from v = v"
      using coerced_version_id coerced_from_id by blast
    then have "map coerced_version (dim_customer s) = dim_customer s"
      and "map coerced_from (dim_customer s) = dim_customer s"
      by (simp_all add: map_idI)
    then
    show "dim_customer ?s' = dim_customer s" using cust by auto
  qed
  show ?thesis using cur cat cust dates ids keys dkeys ok same by blast
qed

text \<open>
  On the scenario the function returns, and the caller's \<open>dim_customer\<close> and
  \<open>dim_date\<close> hold datetimes where they held unconverted dates.
\<close>

theorem tables_after_call_witness:
  "(\<exists>facts. fst (build_fact_transactions scenario_txns (ex_tables scenario_versions)) = Inr facts) \<and>
   dim_customer (snd (build_fact_transactions scenario_txns (ex_tables scenario_versions)))
     = map coerced_version scenario_versions \<and>
   dim_date (snd (build_fact_transactions scenario_txns (ex_tables scenario_versions)))
     = map coerced_date ex_dates \<and>
   map dc_effective_from scenario_versions
     = [Raw (Some (ex_at 2024 1 1 0)), Raw (Some (ex_at 2024 7 1 0))] \<and>
   map dc_effective_from (map coerced_version scenario_versions)
     = [Stamp (ex_at 2024 1 1 0), Stamp (ex_at 2024 7 1 0)]"
proof -
  obtain facts where f: "fst (build_fact_transactions scenario_txns (ex_tables scenario_versions)) = Inr facts"
    by (simp add: stage_defs fixture_defs)
  have "dim_customer (snd (build_fact_transactions scenario_txns (ex_tables scenario_versions)))
     = map coerced_version (dim_customer (ex_tables scenario_versions))"
    "dim_date (snd (build_fact_transactions scenario_txns (ex_tables scenario_versions)))
     = map coerced_date (dim_date (ex_tables scenario_versions))"
    using tables_after_call[of scenario_txns "ex_tables scenario_versions" facts] f by blast+
  moreover have "map dc_effective_from scenario_versions
     = [Raw (Some (ex_at 2024 1 1 0)), Raw (Some (ex_at 2024 7 1 0))]"
    "map dc_effective_from (map coerced_version scenario_versions)
     = [Stamp (ex_at 2024 1 1 0), Stamp (ex_at 2024 7 1 0)]"
    by (simp_all add: scenario_versions_def ex_version_def coerced_version_def)
  ultimately show ?thesis using f by (simp add: ex_tables_def)
qed

text \<open>
  C9 as stated fails on the gap fixture, whose \<open>dim_customer\<close> holds datetimes
  and one open version: after the call the caller's table has 2099-12-31 where it had
  the null.
\<close>

theorem dim_customer_changed:
  "map dc_effective_to (dim_customer (ex_tables gap_versions)) = [NaT] \<and>
   map dc_effective_to (dim_customer (snd (build_fact_transactions gap_txns (ex_tables gap_versions))))
     = [Timestamp 2099 12 31] \<and>
   dim_customer (snd (build_fact_transactions gap_txns (ex_tables gap_versions)))
     \<noteq> dim_customer (ex_tables gap_versions)"
  by (simp add: stage_defs fixture_defs)

section \<open>The published columns\<close>

text \<open>
  C8. When the function returns, the file it has written holds the fact table it
  returns, under the ten column names of lines 141 to 152 in that order, every line
  with one cell per column in the same order; \<open>customer_id\<close>, \<open>effective_from\<close>
  and \<open>effective_to\<close> are not among the columns. The fact table has one row per row
  that survived the filter, in their order, and each column holds what its name says:
  the \<open>transaction_id\<close>, \<open>transaction_key\<close>, converted \<open>timestamp\<close>,
  \<open>amount_eur\<close> and \<open>exchange_rate\<close> of the row's transaction, the flag of that
  amount, the \<open>customer_key\<close> of the matched version, and the \<open>currency_key\<close>,
  \<open>category_key\<close> and \<open>date_key\<close> of the dimension rows that have the
  transaction's currency, category and date.
\<close>

theorem published_columns:
  "build_fact_transactions txs s = (Inr facts, s') \<longrightarrow>
     output_file s' = Some (to_csv facts) \<and>
     header (to_csv facts) =
       [''transaction_id'', ''transaction_key'', ''customer_key'', ''currency_key'',
        ''category_key'', ''date_key'', ''transaction_timestamp'', ''transaction_amount_eur'',
        ''current_exchange_rate'', ''is_high_value_transaction''] \<and>
     ''customer_id'' \<notin> set (header (to_csv facts)) \<and>
     ''effective_from'' \<notin> set (header (to_csv facts)) \<and>
     ''effective_to'' \<notin> set (header (to_csv facts)) \<and>
     lines (to_csv facts) =
       map (\<lambda>r. [StrCell (f_transaction_id r), IntCell (f_transaction_key r),
                  IntCell (f_customer_key r), IntCell (f_currency_key r),
                  IntCell (f_category_key r), IntCell (f_date_key r),
                  DtCell (f_transaction_timestamp r), NumCell (f_transaction_amount_eur r),
                  NumCell (f_current_exchange_rate r),
                  IntCell (Some (f_is_high_value_transaction r))]) facts \<and>
     (\<exists>kept s1. filtered_table txs s = (Inr kept, s1) \<and>
        facts = map (\<lambda>p.
            \<lparr> f_transaction_id = n_transaction_id (fst p),
              f_transaction_key = n_transaction_key (fst p),
              f_customer_key = customer_key p,
              f_currency_key =
                (case find (\<lambda>d. cur_transaction_currency d = n_transaction_currency (fst p))
                        (dim_currency s) of
                   None \<Rightarrow> None | Some d \<Rightarrow> cur_currency_key d),
              f_category_key =
                (case find (\<lambda>d. cat_category d = n_category (fst p)) (dim_category s) of
                   None \<Rightarrow> None | Some d \<Rightarrow> cat_category_key d),
              f_date_key =
                (case find (\<lambda>d. dd_date d = n_transaction_date (fst p))
                        (map coerced_date (dim_date s)) of
                   None \<Rightarrow> None | Some d \<Rightarrow> dd_date_key d),
              f_transaction_timestamp = n_transaction_timestamp (fst p),
              f_transaction_amount_eur = n_transaction_amount_eur (fst p),
              f_current_exchange_rate = n_current_exchange_rate (fst p),
              f_is_high_value_transaction = n_is_high_value_transaction (fst p) \<rparr>) kept \<and>
        (\<forall>p\<in>set kept.
           \<exists>t\<in>set txs.
              n_transaction_id (fst p) = transaction_id t \<and>
              n_transaction_key (fst p) = transaction_key t \<and>
              n_transaction_timestamp (fst p) = to_datetime_cell (timestamp t) \<and>
              n_transaction_amount_eur (fst p) = amount_eur t \<and>
              n_current_exchange_rate (fst p) = exchange_rate t \<and>
              n_transaction_currency (fst p) = transaction_currency t \<and>
              n_category (fst p) = category t \<and>
              n_transaction_date (fst p)
                = to_datetime_cell (dt_date (to_datetime_cell (timestamp t))) \<and>
              n_is_high_value_transaction (fst p)
                = (if (\<exists>a. amount_eur t = Some a \<and> 500 < a) then 1 else 0)))"
proof
  assume run: "build_fact_transactions txs s = (Inr facts, s')"
  have written: "output_file s' = Some (to_csv facts)"
    using build_frame[OF run] by simp
  have hdr: "header (to_csv facts) =
       [''transaction_id'', ''transaction_key'', ''customer_key'', ''currency_key'',
        ''category_key'', ''date_key'', ''transaction_timestamp'', ''transaction_amount_eur'',
        ''current_exchange_rate'', ''is_high_value_transaction'']"
    by (simp add: to_csv_def fact_columns_def)
  have absent: "''customer_id'' \<notin> set (header (to_csv facts))"
    "''effective_from'' \<notin> set (header (to_csv facts))"
    "''effective_to'' \<notin> set (header (to_csv facts))"
    by (simp_all add: to_csv_def fact_columns_def)
  have cells: "lines (to_csv facts) =
       map (\<lambda>r. [StrCell (f_transaction_id r), IntCell (f_transaction_key r),
                  IntCell (f_customer_key r), IntCell (f_currency_key r),
                  IntCell (f_category_key r), IntCell (f_date_key r),
                  DtCell (f_transaction_timestamp r), NumCell (f_transaction_amount_eur r),
                  NumCell (f_current_exchange_rate r),
                  IntCell (Some (f_is_high_value_transaction r))]) facts"
    by (simp add: to_csv_def fact_cells_def)
  obtain kept s1 where f: "filtered_table txs s = (Inr kept, s1)"
    and facts: "facts = map (\<lambda>p.
            \<lparr> f_transaction_id = n_transaction_id (fst p),
              f_transaction_key = n_transaction_key (fst p),
              f_customer_key = customer_key p,
              f_currency_key =
                (case find (\<lambda>d. cur_transaction_currency d = n_transaction_currency (fst p))
                        (dim_currency s) of
                   None \<Rightarrow> None | Some d \<Rightarrow> cur_currency_key d),
              f_category_key =
                (case find (\<lambda>d. cat_category d = n_category (fst p)) (dim_category s) of
                   None \<Rightarrow> None | Some d \<Rightarrow> cat_category_key d),
              f_date_key =
                (case find (\<lambda>d. dd_date d = n_transaction_date (fst p))
                        (map coerced_date (dim_date s)) of
                   None \<Rightarrow> None | Some d \<Rightarrow> dd_date_key d),
              f_transaction_timestamp = n_transaction_timestamp (fst p),
              f_transaction_amount_eur = n_transaction_amount_eur (fst p),
              f_current_exchange_rate = n_current_exchange_rate (fst p),
              f_is_high_value_transaction = n_is_high_value_transaction (fst p) \<rparr>) kept"
    using facts_of_kept[OF run] by blast
  have prov: "\<forall>p\<in>set kept.
           \<exists>t\<in>set txs.
              n_transaction_id (fst p) = transaction_id t \<and>
              n_transaction_key (fst p) = transaction_key t \<and>
              n_transaction_timestamp (fst p) = to_datetime_cell (timestamp t) \<and>
              n_transaction_amount_eur (fst p) = amount_eur t \<and>
              n_current_exchange_rate (fst p) = exchange_rate t \<and>
              n_transaction_currency (fst p) = transaction_currency t \<and>
              n_category (fst p) = category t \<and>
              n_transaction_date (fst p)
                = to_datetime_cell (dt_date (to_datetime_cell (timestamp t))) \<and>
              n_is_high_value_transaction (fst p)
                = (if (\<exists>a. amount_eur t = Some a \<and> 500 < a) then 1 else 0)"
    using kept_of_transaction[OF f] by blast
  have "\<exists>kept s1. filtered_table txs s = (Inr kept, s1) \<and>
        facts = map (\<lambda>p.
            \<lparr> f_transaction_id = n_transaction_id (fst p),
              f_transaction_key = n_transaction_key (fst p),
              f_customer_key = customer_key p,
              f_currency_key =
                (case find (\<lambda>d. cur_transaction_currency d = n_transaction_currency (fst p))
                        (dim_currency s) of
                   None \<Rightarrow> None | Some d \<Rightarrow> cur_currency_key d),
              f_category_key =
                (case find (\<lambda>d. cat_category d = n_category (fst p)) (dim_category s) of
                   None \<Rightarrow> None | Some d \<Rightarrow> cat_category_key d),
              f_date_key =
                (case find (\<lambda>d. dd_date d = n_transaction_date (fst p))
                        (map coerced_date (dim_date s)) of
                   None \<Rightarrow> None | Some d \<Rightarrow> dd_date_key d),
              f_transaction_timestamp = n_transaction_timestamp (fst p),
              f_transaction_amount_eur = n_transaction_amount_eur (fst p),
              f_current_exchange_rate = n_current_exchange_rate (fst p),
              f_is_high_value_transaction = n_is_high_value_transaction (fst p) \<rparr>) kept \<and>
        (\<forall>p\<in>set kept.
           \<exists>t\<in>set txs.
              n_transaction_id (fst p) = transaction_id t \<and>
              n_transaction_key (fst p) = transaction_key t \<and>
              n_transaction_timestamp (fst p) = to_datetime_cell (timestamp t) \<and>
              n_transaction_amount_eur (fst p) = amount_eur t \<and>
              n_current_exchange_rate (fst p) = exchange_rate t \<and>
              n_transaction_currency (fst p) = transaction_currency t \<and>
              n_category (fst p) = category t \<and>
              n_transaction_date (fst p)
                = to_datetime_cell (dt_date (to_datetime_cell (timestamp t))) \<and>
              n_is_high_value_transaction (fst p)
                = (if (\<exists>a. amount_eur t = Some a \<and> 500 < a) then 1 else 0))"
    by (rule exI[of _ kept], rule exI[of _ s1]) (use f facts prov in blast)
  then show "
     output_file s' = Some (to_csv facts) \<and>
     header (to_csv facts) =
       [''transaction_id'', ''transaction_key'', ''customer_key'', ''currency_key'',
        ''category_key'', ''date_key'', ''transaction_timestamp'', ''transaction_amount_eur'',
        ''current_exchange_rate'', ''is_high_value_transaction''] \<and>
     ''customer_id'' \<notin> set (header (to_csv facts)) \<and>
     ''effective_from'' \<notin> set (header (to_csv facts)) \<and>
     ''effective_to'' \<notin> set (header (to_csv facts)) \<and>
     lines (to_csv facts) =
       map (\<lambda>r. [StrCell (f_transaction_id r), IntCell (f_transaction_key r),
                  IntCell (f_customer_key r), IntCell (f_currency_key r),
                  IntCell (f_category_key r), IntCell (f_date_key r),
                  DtCell (f_transaction_timestamp r), NumCell (f_transaction_amount_eur r),
                  NumCell (f_current_exchange_rate r),
                  IntCell (Some (f_is_high_value_transaction r))]) facts \<and>
     (\<exists>kept s1. filtered_table txs s = (Inr kept, s1) \<and>
        facts = map (\<lambda>p.
            \<lparr> f_transaction_id = n_transaction_id (fst p),
              f_transaction_key = n_transaction_key (fst p),
              f_customer_key = customer_key p,
              f_currency_key =
                (case find (\<lambda>d. cur_transaction_currency d = n_transaction_currency (fst p))
                        (dim_currency s) of
                   None \<Rightarrow> None | Some d \<Rightarrow> cur_currency_key d),
              f_category_key =
                (case find (\<lambda>d. cat_category d = n_category (fst p)) (dim_category s) of
                   None \<Rightarrow> None | Some d \<Rightarrow> cat_category_key d),
              f_date_key =
                (case find (\<lambda>d. dd_date d = n_transaction_date (fst p))
                        (map coerced_date (dim_date s)) of
                   None \<Rightarrow> None | Some d \<Rightarrow> dd_date_key d),
              f_transaction_timestamp = n_transaction_timestamp (fst p),
              f_transaction_amount_eur = n_transaction_amount_eur (fst p),
              f_current_exchange_rate = n_current_exchange_rate (fst p),
              f_is_high_value_transaction = n_is_high_value_transaction (fst p) \<rparr>) kept \<and>
        (\<forall>p\<in>set kept.
           \<exists>t\<in>set txs.
              n_transaction_id (fst p) = transaction_id t \<and>
              n_transaction_key (fst p) = transaction_key t \<and>
              n_transaction_timestamp (fst p) = to_datetime_cell (timestamp t) \<and>
              n_transaction_amount_eur (fst p) = amount_eur t \<and>
              n_current_exchange_rate (fst p) = exchange_rate t \<and>
              n_transaction_currency (fst p) = transaction_currency t \<and>
              n_category (fst p) = category t \<and>
              n_transaction_date (fst p)
                = to_datetime_cell (dt_date (to_datetime_cell (timestamp t))) \<and>
              n_is_high_value_transaction (fst p)
                = (if (\<exists>a. amount_eur t = Some a \<and> 500 < a) then 1 else 0)))"
    using written hdr absent cells by blast
qed

text \<open>
  On the scenario the file has the ten columns and three lines; the line of T1 holds the
  transaction key 9, the customer key 100, the currency key 1, the category key 7, the
  date key 20240615, the timestamp of 2024-06-15 at 14 hours, the amount 500, the
  exchange rate 1.25 and the flag 0, in that order.
\<close>

theorem published_columns_witness:
  "\<exists>facts s' file.
      build_fact_transactions scenario_txns (ex_tables scenario_versions) = (Inr facts, s') \<and>
      output_file s' = Some file \<and>
      header file =
       [''transaction_id'', ''transaction_key'', ''customer_key'', ''currency_key'',
        ''category_key'', ''date_key'', ''transaction_timestamp'', ''transaction_amount_eur'',
        ''current_exchange_rate'', ''is_high_value_transaction''] \<and>
      length (lines file) = 3 \<and>
      lines file ! 0 =
        [StrCell (Some ''T1''), IntCell (Some 9), IntCell (Some 100), IntCell (Some 1),
         IntCell (Some 7), IntCell (Some 20240615), DtCell (Stamp (ex_at 2024 6 15 14)),
         NumCell (Some 500), NumCell (Some 1.25), IntCell (Some 0)]"
proof -
  obtain facts s' where
    run: "build_fact_transactions scenario_txns (ex_tables scenario_versions) = (Inr facts, s')"
    by (simp add: stage_defs fixture_defs)
  note p = published_columns[of scenario_txns "ex_tables scenario_versions" facts s',
      rule_format, OF run]
  have a: "output_file s' = Some (to_csv facts)" using p by blast
  have b: "header (to_csv facts) =
       [''transaction_id'', ''transaction_key'', ''customer_key'', ''currency_key'',
        ''category_key'', ''date_key'', ''transaction_timestamp'', ''transaction_amount_eur'',
        ''current_exchange_rate'', ''is_high_value_transaction'']"
    using p by blast
  have "lines (to_csv facts) =
       map (\<lambda>r. [StrCell (f_transaction_id r), IntCell (f_transaction_key r),
                  IntCell (f_customer_key r), IntCell (f_currency_key r),
                  IntCell (f_category_key r), IntCell (f_date_key r),
                  DtCell (f_transaction_timestamp r), NumCell (f_transaction_amount_eur r),
                  NumCell (f_current_exchange_rate r),
                  IntCell (Some (f_is_high_value_transaction r))]) facts"
    using p by blast
  then have l: "lines (to_csv facts) = map fact_cells facts"
    by (simp add: fact_cells_def)
  have "map fact_cells facts =
      [[StrCell (Some ''T1''), IntCell (Some 9), IntCell (Some 100), IntCell (Some 1),
        IntCell (Some 7), IntCell (Some 20240615), DtCell (Stamp (ex_at 2024 6 15 14)),
        NumCell (Some 500), NumCell (Some 1.25), IntCell (Some 0)],
       [StrCell (Some ''T2''), IntCell (Some 9), IntCell (Some 101), IntCell (Some 1),
        IntCell (Some 7), IntCell (Some 20240702), DtCell (Stamp (ex_at 2024 7 2 9)),
        NumCell (Some 500.01), NumCell (Some 1.25), IntCell (Some 1)],
       [StrCell (Some ''T3''), IntCell (Some 9), IntCell (Some 101), IntCell (Some 1),
        IntCell (Some 7), IntCell (Some 20241225), DtCell (Stamp (ex_at 2024 12 25 23)),
        NumCell (Some 20), NumCell (Some 1.25), IntCell (Some 0)]]"
    using run by (auto simp: stage_defs fixture_defs)
  then have c: "length (lines (to_csv facts)) = 3"
    and d: "lines (to_csv facts) ! 0 =
        [StrCell (Some ''T1''), IntCell (Some 9), IntCell (Some 100), IntCell (Some 1),
         IntCell (Some 7), IntCell (Some 20240615), DtCell (Stamp (ex_at 2024 6 15 14)),
         NumCell (Some 500), NumCell (Some 1.25), IntCell (Some 0)]"
    unfolding l by simp_all
  show ?thesis
    by (rule exI[of _ facts], rule exI[of _ s'], rule exI[of _ "to_csv facts"])
       (simp only: run a b c d simp_thms)
qed

section \<open>The static dimensions\<close>

lemma coerced_dates_distinct:
  "distinct (map dd_date (map coerced_date ds)) \<Longrightarrow> distinct (map dd_date ds)"
proof -
  have "map dd_date (map coerced_date ds) = map to_datetime_cell (map dd_date ds)"
    by (simp add: coerced_date_def)
  then show "distinct (map dd_date (map coerced_date ds)) \<Longrightarrow> distinct (map dd_date ds)"
    by (metis distinct_map)
qed

lemma find_unmatched: "\<forall>d\<in>set ds. \<not> P d \<Longrightarrow> find P ds = None"
  by (simp add: find_None_iff)

text \<open>
  C6. A merge validated as many-to-one raises \<open>MergeError\<close> whenever the dimension
  has a natural key twice, whatever the transactions are. So a call with a duplicate in
  \<open>dim_currency\<close>, \<open>dim_category\<close> or \<open>dim_date\<close> never returns, and when the
  function reaches the merge with that dimension (the earlier lines raise nothing),
  what it raises is the \<open>MergeError\<close> of that merge.
\<close>

theorem duplicate_keys_abort:
  "(\<not> distinct (map rkey right) \<longrightarrow>
      merge_many_to_one lkey rkey left right = Inl (MergeError merge_message)) \<and>
   (\<not> distinct (map cur_transaction_currency (dim_currency s)) \<or>
    \<not> distinct (map cat_category (dim_category s)) \<or>
    \<not> distinct (map dd_date (dim_date s)) \<longrightarrow>
      (\<exists>e. fst (build_fact_transactions txs s) = Inl e)) \<and>
   (resolved_table txs s = (Inr resolved, s1) \<longrightarrow>
      (\<not> distinct (map cur_transaction_currency (dim_currency s)) \<longrightarrow>
         build_fact_transactions txs s = (Inl (MergeError merge_message), s1)) \<and>
      (distinct (map cur_transaction_currency (dim_currency s)) \<and>
       \<not> distinct (map cat_category (dim_category s)) \<longrightarrow>
         build_fact_transactions txs s = (Inl (MergeError merge_message), s1)) \<and>
      (distinct (map cur_transaction_currency (dim_currency s)) \<and>
       distinct (map cat_category (dim_category s)) \<and>
       Raw None \<notin> set (map dd_date (dim_date s)) \<and>
       \<not> distinct (map dd_date (dim_date s)) \<longrightarrow>
         fst (build_fact_transactions txs s) = Inl (MergeError merge_message)))"
proof (intro conjI impI)
  assume "\<not> distinct (map rkey right)"
  then show "merge_many_to_one lkey rkey left right = Inl (MergeError merge_message)"
    by (simp add: merge_many_to_one_def)
next
  assume dup: "\<not> distinct (map cur_transaction_currency (dim_currency s)) \<or>
    \<not> distinct (map cat_category (dim_category s)) \<or>
    \<not> distinct (map dd_date (dim_date s))"
  have "fst (build_fact_transactions txs s) \<noteq> Inr facts" for facts
  proof
    assume "fst (build_fact_transactions txs s) = Inr facts"
    then have "build_fact_transactions txs s = (Inr facts, snd (build_fact_transactions txs s))"
      by (metis prod.collapse)
    then obtain keyed s2 where k: "keyed_table txs s = (Inr keyed, s2)"
      by (auto simp: build_Inr)
    obtain resolved s1 where r: "resolved_table txs s = (Inr resolved, s1)"
      and rk: "resolve_keys resolved s1 = (Inr keyed, s2)"
      using k by (auto simp: keyed_table_Inr)
    have same: "dim_currency s1 = dim_currency s" "dim_category s1 = dim_category s"
      "dim_date s1 = dim_date s"
      using resolved_table_state[OF r] by auto
    note rkI = resolve_keys_Inr[OF rk]
    have "dim_date s2 = map coerced_date (dim_date s)"
      using rkI same by simp
    then have "distinct (map dd_date (map coerced_date (dim_date s)))"
      using rkI by metis
    moreover have "distinct (map cur_transaction_currency (dim_currency s))"
      "distinct (map cat_category (dim_category s))"
      using rkI same by simp_all
    ultimately show False using dup coerced_dates_distinct by blast
  qed
  then show "\<exists>e. fst (build_fact_transactions txs s) = Inl e"
    by (cases "fst (build_fact_transactions txs s)") auto
next
  assume r: "resolved_table txs s = (Inr resolved, s1)"
    and d: "\<not> distinct (map cur_transaction_currency (dim_currency s))"
  have same: "dim_currency s1 = dim_currency s"
    using resolved_table_state[OF r] by auto
  show "build_fact_transactions txs s = (Inl (MergeError merge_message), s1)"
    using r d same
    by (simp add: build_fact_transactions_def keyed_table_def resolve_keys_def merge_many_to_one_def)
next
  assume r: "resolved_table txs s = (Inr resolved, s1)"
    and d: "distinct (map cur_transaction_currency (dim_currency s)) \<and>
       \<not> distinct (map cat_category (dim_category s))"
  have same: "dim_currency s1 = dim_currency s" "dim_category s1 = dim_category s"
    using resolved_table_state[OF r] by auto
  show "build_fact_transactions txs s = (Inl (MergeError merge_message), s1)"
    using r d same
    by (simp add: build_fact_transactions_def keyed_table_def resolve_keys_def merge_many_to_one_def)
next
  assume r: "resolved_table txs s = (Inr resolved, s1)"
    and d: "distinct (map cur_transaction_currency (dim_currency s)) \<and>
       distinct (map cat_category (dim_category s)) \<and>
       Raw None \<notin> set (map dd_date (dim_date s)) \<and>
       \<not> distinct (map dd_date (dim_date s))"
  have same: "dim_currency s1 = dim_currency s" "dim_category s1 = dim_category s"
    "dim_date s1 = dim_date s"
    using resolved_table_state[OF r] by auto
  have conv: "to_datetime (map dd_date (dim_date s)) = Inr (map to_datetime_cell (map dd_date (dim_date s)))"
    using d by (simp add: to_datetime_def)
  have dup: "\<not> distinct (map dd_date (map coerced_date (dim_date s)))"
    using d coerced_dates_distinct by blast
  show "fst (build_fact_transactions txs s) = Inl (MergeError merge_message)"
    using r d same dup
    by (simp add: build_fact_transactions_def keyed_table_def resolve_keys_def
        merge_many_to_one_def conv assign_dd_date Let_def del: map_map)
qed

text \<open>
  With the code EUR twice in \<open>dim_currency\<close> the function raises the
  \<open>MergeError\<close> of the first merge.
\<close>

theorem duplicate_keys_abort_witness:
  "\<not> distinct (map cur_transaction_currency duplicate_currency) \<and>
   (\<exists>resolved. fst (resolved_table scenario_txns
       ((ex_tables scenario_versions)\<lparr>dim_currency := duplicate_currency\<rparr>)) = Inr resolved) \<and>
   fst (build_fact_transactions scenario_txns
       ((ex_tables scenario_versions)\<lparr>dim_currency := duplicate_currency\<rparr>))
     = Inl (MergeError merge_message)"
proof -
  let ?s = "(ex_tables scenario_versions)\<lparr>dim_currency := duplicate_currency\<rparr>"
  have d: "\<not> distinct (map cur_transaction_currency (dim_currency ?s))"
    by (simp add: duplicate_currency_def)
  obtain resolved s1 where r: "resolved_table scenario_txns ?s = (Inr resolved, s1)"
    by (simp add: stage_defs fixture_defs duplicate_currency_def)
  have "build_fact_transactions scenario_txns ?s = (Inl (MergeError merge_message), s1)"
    using duplicate_keys_abort[of _ _ _ _ ?s scenario_txns resolved s1] r d by blast
  then show ?thesis using d r by simp
qed

text \<open>
  C7. A merge validated as many-to-one keeps the left table as it is, row for row, and
  gives a row whose key has no match in the dimension nulls in the dimension's columns.
  So the working table after the three merges of lines 112 to 136 has the rows of the
  table before them, each once and in their order, and a row whose currency, category
  or date is in no row of the dimension has a null \<open>currency_key\<close>,
  \<open>category_key\<close> or \<open>date_key\<close>.
\<close>

theorem static_merges_keep_rows:
  "(merge_many_to_one lkey rkey left right = Inr merged \<longrightarrow>
      map fst merged = left \<and>
      (\<forall>p\<in>set merged. (\<forall>d\<in>set right. rkey d \<noteq> lkey (fst p)) \<longrightarrow> snd p = None)) \<and>
   (resolved_table txs s = (Inr resolved, s1) \<and> keyed_table txs s = (Inr keyed, s2) \<longrightarrow>
      map (\<lambda>p. fst (fst (fst p))) keyed = resolved \<and>
      (\<forall>p\<in>set keyed.
         ((\<forall>d\<in>set (dim_currency s).
              cur_transaction_currency d \<noteq> r_transaction_currency (fst (fst (fst p)))) \<longrightarrow>
            currency_key p = None) \<and>
         ((\<forall>d\<in>set (dim_category s). cat_category d \<noteq> r_category (fst (fst (fst p)))) \<longrightarrow>
            category_key p = None) \<and>
         ((\<forall>d\<in>set (dim_date s).
              to_datetime_cell (dd_date d) \<noteq> r_transaction_date (fst (fst (fst p)))) \<longrightarrow>
            date_key p = None)))"
proof (intro conjI impI)
  assume m: "merge_many_to_one lkey rkey left right = Inr merged"
  then have merged: "merged = map (\<lambda>l. (l, find (\<lambda>r. rkey r = lkey l) right)) left"
    by (auto simp: merge_many_to_one_def merge_left_distinct split: if_splits)
  show "map fst merged = left"
    unfolding merged by (simp add: comp_def)
  show "\<forall>p\<in>set merged. (\<forall>d\<in>set right. rkey d \<noteq> lkey (fst p)) \<longrightarrow> snd p = None"
    unfolding merged by (auto simp: find_None_iff)
next
  assume a: "resolved_table txs s = (Inr resolved, s1) \<and> keyed_table txs s = (Inr keyed, s2)"
  then have rk: "resolve_keys resolved s1 = (Inr keyed, s2)"
    by (auto simp: keyed_table_def)
  have same: "dim_currency s1 = dim_currency s" "dim_category s1 = dim_category s"
    "dim_date s1 = dim_date s"
    using resolved_table_state[of txs s "Inr resolved" s1] a by auto
  have keyed: "keyed = map (keyed_row_of (dim_currency s) (dim_category s)
      (map coerced_date (dim_date s))) resolved"
    using resolve_keys_Inr[OF rk] same by simp
  show "map (\<lambda>p. fst (fst (fst p))) keyed = resolved"
    unfolding keyed by (simp add: keyed_row_of_def comp_def)
  show "\<forall>p\<in>set keyed.
         ((\<forall>d\<in>set (dim_currency s).
              cur_transaction_currency d \<noteq> r_transaction_currency (fst (fst (fst p)))) \<longrightarrow>
            currency_key p = None) \<and>
         ((\<forall>d\<in>set (dim_category s). cat_category d \<noteq> r_category (fst (fst (fst p)))) \<longrightarrow>
            category_key p = None) \<and>
         ((\<forall>d\<in>set (dim_date s).
              to_datetime_cell (dd_date d) \<noteq> r_transaction_date (fst (fst (fst p)))) \<longrightarrow>
            date_key p = None)"
    unfolding keyed
    by (auto simp: keyed_row_of_def currency_key_def category_key_def date_key_def
        find_unmatched coerced_date_def)
qed

text \<open>
  On the fixture with one transaction in US dollars, which \<open>dim_currency\<close> does not
  have, the table after the merges has both transactions, and the one in dollars has a
  null \<open>currency_key\<close>.
\<close>

theorem static_merges_keep_rows_witness:
  "\<exists>resolved s1 keyed s2.
      resolved_table usd_once (ex_tables gap_versions) = (Inr resolved, s1) \<and>
      keyed_table usd_once (ex_tables gap_versions) = (Inr keyed, s2) \<and>
      map r_transaction_id resolved = [Some ''T1'', Some ''T3''] \<and>
      map (\<lambda>p. fst (fst (fst p))) keyed = resolved \<and>
      map currency_key keyed = [None, Some 1]"
proof -
  let ?s = "ex_tables gap_versions"
  obtain resolved s1 where r: "resolved_table usd_once ?s = (Inr resolved, s1)"
    by (simp add: stage_defs fixture_defs)
  obtain keyed s2 where k: "keyed_table usd_once ?s = (Inr keyed, s2)"
    by (simp add: stage_defs fixture_defs)
  have "map (\<lambda>p. fst (fst (fst p))) keyed = resolved"
    using static_merges_keep_rows[of _ _ _ _ _ usd_once ?s resolved s1 keyed s2] r k by blast
  moreover have "map r_transaction_id resolved = [Some ''T1'', Some ''T3'']"
    using r by (auto simp: stage_defs fixture_defs)
  moreover have "map currency_key keyed = [None, Some 1]"
    using k by (auto simp: stage_defs fixture_defs)
  ultimately show ?thesis using r k by auto
qed

end
